theory Spec2Isabelle
  imports Main
begin


section \<open>Data model\<close>

text \<open>
  The documents of the store, as the Mongoose schemas of \<^verbatim>\<open>product.model.js\<close>,
  \<^verbatim>\<open>cart.model.js\<close> and the order schema declare them. An ObjectId is a natural number.
  A JavaScript \<^verbatim>\<open>Number\<close> field (price, stock, quantity, amounts) holds an integer here:
  the operations below only add, multiply and compare them. Text fields that no operation
  branches on (names, descriptions, timestamps) are left out. Field names that several
  schemas share carry a prefix (\<open>p_\<close> product, \<open>ol_\<close> order line, \<open>o_\<close> order).

\<close>

type_synonym objid = nat

text \<open>
  The error classes of the services. \<open>Error\<close> is the plain JavaScript error, which has no
  \<^verbatim>\<open>status\<close>; the other three set \<^verbatim>\<open>status\<close> to 404, 400 and 403. The message is the fixed
  text of the source's message, without the interpolated id or name.
\<close>

datatype error =
    Error string
  | NotFoundError string
  | BadRequestError string
  | ForbiddenError string

fun has_status :: "error \<Rightarrow> bool" where
  "has_status (Error m) = False"
| "has_status (NotFoundError m) = True"
| "has_status (BadRequestError m) = True"
| "has_status (ForbiddenError m) = True"

record product =
  p_price :: int
  stock :: int
  isActive :: bool
  p_isDeleted :: bool
  seller :: objid

text \<open>
  The read \<^verbatim>\<open>product.sellerId\<close> of \<^verbatim>\<open>createOrder\<close>. The product schema declares the seller
  reference under the path \<^verbatim>\<open>seller\<close> and declares no path \<^verbatim>\<open>sellerId\<close>, so on a product
  document the read is undefined.
\<close>

definition product_sellerId :: "product \<Rightarrow> objid option" where
  "product_sellerId p = None"

text \<open>
  A cart line, with the type of its \<^verbatim>\<open>productId\<close> as a parameter: an ObjectId in the stored
  document, the referenced document (or null) after \<^verbatim>\<open>populate\<close>. The references of an
  order line (\<^verbatim>\<open>productId\<close>, \<^verbatim>\<open>sellerId\<close>) are parameters in the same way.
\<close>

record 'a cart_item =
  productId :: 'a
  price :: int
  quantity :: int
  totalPrice :: int

record 'a cart =
  userId :: objid
  items :: "'a cart_item list"
  totalAmount :: int
  isDeleted :: bool

type_synonym cart_doc = "objid cart"

record user =
  email :: "string option"

record ('a, 'b) order_line =
  ol_productId :: 'a
  ol_quantity :: int
  ol_price :: int
  ol_sellerId :: 'b

record address =
  street :: "string option"
  city :: "string option"
  state :: "string option"
  zip_code :: "string option"
  country :: "string option"

record ('a, 'b) order =
  o_userId :: objid
  products :: "('a, 'b) order_line list"
  shippingAddress :: address
  billingAddress :: address
  paymentMethod :: string
  razorpayOrderId :: "string option"
  o_totalAmount :: int
  paymentStatus :: string
  status :: string
  o_isDeleted :: bool

type_synonym order_doc = "(objid, objid) order"

text \<open>
  The database: products and users by \<^verbatim>\<open>_id\<close>; carts and orders as collections in insertion
  order, where the \<^verbatim>\<open>_id\<close> of a document is its position (no operation removes a cart or an
  order physically).
\<close>

record db =
  Product_coll :: "objid \<rightharpoonup> product"
  Cart_coll :: "cart_doc list"
  Order_coll :: "order_doc list"
  User_coll :: "objid \<rightharpoonup> user"

section \<open>Array helpers\<close>

text \<open>\<^verbatim>\<open>Array.prototype.findIndex\<close>: the first index whose element satisfies the predicate;
  \<open>None\<close> stands for the result \<^verbatim>\<open>-1\<close>.\<close>

fun findIndex :: "('a \<Rightarrow> bool) \<Rightarrow> 'a list \<Rightarrow> nat option" where
  "findIndex P [] = None"
| "findIndex P (x # xs) = (if P x then Some 0 else map_option Suc (findIndex P xs))"

text \<open>\<^verbatim>\<open>items.splice(i, 1)\<close>: the array without its element at index \<open>i\<close>.\<close>

definition splice1 :: "nat \<Rightarrow> 'a list \<Rightarrow> 'a list" where
  "splice1 i xs = take i xs @ drop (Suc i) xs"

text \<open>\<^verbatim>\<open>items.reduce((sum, item) => sum + item.totalPrice, 0)\<close>.\<close>

definition sum_totalPrice :: "'a cart_item list \<Rightarrow> int" where
  "sum_totalPrice its = foldl (\<lambda>sum item. sum + totalPrice item) 0 its"

section \<open>Catalog and cart queries\<close>

text \<open>\<^verbatim>\<open>Product.findOne({ _id: productId, isActive: true, isDeleted: false })\<close>.\<close>

definition Product_findOne_available :: "db \<Rightarrow> objid \<Rightarrow> product option" where
  "Product_findOne_available s pid =
     (case Product_coll s pid of
        None \<Rightarrow> None
      | Some p \<Rightarrow> if isActive p \<and> \<not> p_isDeleted p then Some p else None)"

text \<open>\<^verbatim>\<open>Product.find({ _id: { $in: productIds }, isActive: true, isDeleted: false })\<close>:
  every matching product once, however often its id occurs in \<open>productIds\<close>.\<close>

definition Product_find_available :: "db \<Rightarrow> objid list \<Rightarrow> (objid \<times> product) list" where
  "Product_find_available s productIds =
     List.map_filter
       (\<lambda>i. case Product_findOne_available s i of None \<Rightarrow> None | Some p \<Rightarrow> Some (i, p))
       (remdups productIds)"

text \<open>\<^verbatim>\<open>Cart.findOne({ userId, isDeleted: false })\<close>, as the \<^verbatim>\<open>_id\<close> of the document found.\<close>

definition Cart_findOne_live :: "db \<Rightarrow> objid \<Rightarrow> objid option" where
  "Cart_findOne_live s uid = findIndex (\<lambda>c. userId c = uid \<and> \<not> isDeleted c) (Cart_coll s)"

text \<open>\<^verbatim>\<open>populate('items.productId', 'name price')\<close>: the reference becomes the product's
  \<^verbatim>\<open>_id\<close> and current price, or null when no such product is stored.\<close>

definition populate_item :: "db \<Rightarrow> objid cart_item \<Rightarrow> (objid \<times> int) option cart_item" where
  "populate_item s item =
     \<lparr>productId = map_option (\<lambda>p. (productId item, p_price p)) (Product_coll s (productId item)),
      price = price item, quantity = quantity item, totalPrice = totalPrice item\<rparr>"

text \<open>\<^verbatim>\<open>Cart.findById(cart._id).populate('items.productId', 'name price').lean()\<close>.\<close>

definition Cart_findById_populated ::
  "db \<Rightarrow> objid \<Rightarrow> (objid \<times> (objid \<times> int) option cart) option" where
  "Cart_findById_populated s cid =
     (if cid < length (Cart_coll s)
      then (let c = Cart_coll s ! cid
            in Some (cid, \<lparr>userId = userId c, items = map (populate_item s) (items c),
                           totalAmount = totalAmount c, isDeleted = isDeleted c\<rparr>))
      else None)"

section \<open>The cart model: validation, pre-save hook, save, addItem\<close>

text \<open>
  The validators the cart schema declares: a line's price and total price are at least 0,
  its quantity at least 1, the lines' product ids are distinct, the total amount is at
  least 0. The pre-save hook below rejects every document with a repeated product id as
  well (its count comparison), so the outcome of a save does not depend on the
  distinctness validator.
\<close>

definition cart_validate :: "cart_doc \<Rightarrow> bool" where
  "cart_validate this =
     (list_all (\<lambda>item. 0 \<le> price item \<and> 1 \<le> quantity item \<and> 0 \<le> totalPrice item) (items this)
      \<and> distinct (map productId (items this))
      \<and> 0 \<le> totalAmount this)"

text \<open>The loop of the pre-save hook over the lines: look the line's product up among the
  products found, compare stock with the line's quantity, rewrite price and total price.\<close>

fun revalidate_items :: "(objid \<times> product) list \<Rightarrow> objid cart_item list \<Rightarrow> error + objid cart_item list" where
  "revalidate_items found [] = Inr []"
| "revalidate_items found (item # rest) =
     (case find (\<lambda>p. fst p = productId item) found of
        None \<Rightarrow> Inl (Error ''Product not found'')
      | Some p \<Rightarrow>
          if stock (snd p) < quantity item then Inl (Error ''Insufficient stock for product'')
          else (let item1 = item\<lparr>price := p_price (snd p)\<rparr>;
                    item2 = item1\<lparr>totalPrice := price item1 * quantity item1\<rparr>
                in case revalidate_items found rest of
                     Inl e \<Rightarrow> Inl e
                   | Inr rest' \<Rightarrow> Inr (item2 # rest')))"

text \<open>\<^verbatim>\<open>CartSchema.pre('save')\<close>.\<close>

definition cart_pre_save :: "db \<Rightarrow> cart_doc \<Rightarrow> error + cart_doc" where
  "cart_pre_save s this =
     (let productIds = map productId (items this);
          found = Product_find_available s productIds
      in if length found \<noteq> length productIds
         then Inl (Error ''One or more products are unavailable'')
         else (case revalidate_items found (items this) of
                 Inl e \<Rightarrow> Inl e
               | Inr items' \<Rightarrow> Inr (this\<lparr>items := items', totalAmount := sum_totalPrice items'\<rparr>)))"

text \<open>
  \<^verbatim>\<open>cart.save({ session })\<close>: schema validation, then the pre-save hook, then the write. A
  document is held with its \<^verbatim>\<open>_id\<close> when it was read from the store and with \<open>None\<close> when it
  is new; a new document is appended. The result carries the working state of the session.
\<close>

definition cart_save :: "db \<Rightarrow> objid option \<times> cart_doc \<Rightarrow> (error + objid) \<times> db" where
  "cart_save s doc =
     (if \<not> cart_validate (snd doc) then (Inl (Error ''Cart validation failed''), s)
      else (case cart_pre_save s (snd doc) of
              Inl e \<Rightarrow> (Inl e, s)
            | Inr this \<Rightarrow>
                (case fst doc of
                   None \<Rightarrow> (Inr (length (Cart_coll s)), s\<lparr>Cart_coll := Cart_coll s @ [this]\<rparr>)
                 | Some cid \<Rightarrow> (Inr cid, s\<lparr>Cart_coll := (Cart_coll s)[cid := this]\<rparr>))))"

text \<open>\<^verbatim>\<open>CartSchema.methods.addItem\<close>: merge into the line of the same product, or push a new
  line; then save.\<close>

definition merge_item :: "product \<Rightarrow> objid \<Rightarrow> int \<Rightarrow> objid cart_item list \<Rightarrow> objid cart_item list" where
  "merge_item product pid qty its =
     (case findIndex (\<lambda>item. productId item = pid) its of
        Some existingItemIndex \<Rightarrow>
          (let it = its ! existingItemIndex;
               it1 = it\<lparr>quantity := quantity it + qty\<rparr>;
               it2 = it1\<lparr>price := p_price product\<rparr>;
               it3 = it2\<lparr>totalPrice := price it2 * quantity it2\<rparr>
           in its[existingItemIndex := it3])
      | None \<Rightarrow>
          its @ [\<lparr>productId = pid, price = p_price product, quantity = qty,
                  totalPrice = p_price product * qty\<rparr>])"

definition cart_addItem :: "db \<Rightarrow> objid option \<times> cart_doc \<Rightarrow> objid \<Rightarrow> int \<Rightarrow> (error + objid) \<times> db" where
  "cart_addItem s doc pid qty =
     (case Product_findOne_available s pid of
        None \<Rightarrow> (Inl (Error ''Product not found or unavailable''), s)
      | Some product \<Rightarrow>
          if stock product < qty then (Inl (Error ''Insufficient stock for product''), s)
          else (let this1 = (snd doc)\<lparr>items := merge_item product pid qty (items (snd doc))\<rparr>;
                    this2 = this1\<lparr>totalAmount := sum_totalPrice (items this1)\<rparr>
                in cart_save s (fst doc, this2)))"

section \<open>The cart service\<close>

text \<open>
  The request arguments are dynamically typed. An id argument is \<open>Some i\<close> when
  \<^verbatim>\<open>mongoose.isValidObjectId\<close> accepts it and \<open>None\<close> otherwise; a quantity argument is
  \<open>Some q\<close> when \<^verbatim>\<open>Number.isInteger\<close> holds of it and \<open>None\<close> otherwise.

  Every mutating operation runs its body between \<^verbatim>\<open>startTransaction\<close> and
  \<^verbatim>\<open>commitTransaction\<close>. The body returns its result with the working state of the session;
  on an error the \<^verbatim>\<open>catch\<close> block aborts the transaction, which discards the working state
  and keeps the state the transaction started from, and rethrows: the error itself when
  it has a \<^verbatim>\<open>status\<close>, a \<open>BadRequestError\<close> with a fixed message otherwise.
\<close>

definition abortTransaction :: "db \<Rightarrow> db \<Rightarrow> db" where
  "abortTransaction snapshot working = snapshot"

definition rethrow :: "string \<Rightarrow> error \<Rightarrow> error" where
  "rethrow msg e = (if has_status e then e else BadRequestError msg)"

text \<open>The \<^verbatim>\<open>try\<close> block of \<^verbatim>\<open>addItemToCart\<close>, up to the save.\<close>

definition addItemToCart_body :: "db \<Rightarrow> objid \<Rightarrow> objid \<Rightarrow> int \<Rightarrow> (error + objid) \<times> db" where
  "addItemToCart_body s uid pid qty =
     (case Product_findOne_available s pid of
        None \<Rightarrow> (Inl (NotFoundError ''Product not found or unavailable''), s)
      | Some product \<Rightarrow>
          if stock product < qty
          then (Inl (BadRequestError ''Insufficient stock for product''), s)
          else (let cart = (case Cart_findOne_live s uid of
                              Some cid \<Rightarrow> (Some cid, Cart_coll s ! cid)
                            | None \<Rightarrow> (None, \<lparr>userId = uid, items = [], totalAmount = 0,
                                               isDeleted = False\<rparr>))
                in cart_addItem s cart pid qty))"

definition addItemToCart ::
  "db \<Rightarrow> objid option \<Rightarrow> objid option \<Rightarrow> int option \<Rightarrow> objid option
     \<Rightarrow> (error + (objid \<times> (objid \<times> int) option cart) option) \<times> db" where
  "addItemToCart s userIdArg productIdArg quantityArg authUserId =
     (case (userIdArg, productIdArg) of
        (Some uid, Some pid) \<Rightarrow>
          (case quantityArg of
             None \<Rightarrow> (Inl (BadRequestError ''Quantity must be a positive integer''), s)
           | Some qty \<Rightarrow>
               if qty \<le> 0 then (Inl (BadRequestError ''Quantity must be a positive integer''), s)
               else if userIdArg \<noteq> authUserId
               then (Inl (ForbiddenError ''Unauthorized to modify this cart''), s)
               else (case addItemToCart_body s uid pid qty of
                       (Inl e, working) \<Rightarrow>
                         (Inl (rethrow ''Failed to add item to cart'' e), abortTransaction s working)
                     | (Inr cid, working) \<Rightarrow> (Inr (Cart_findById_populated working cid), working)))
      | _ \<Rightarrow> (Inl (BadRequestError ''Invalid user or product ID''), s))"

definition removeItemFromCart_body :: "db \<Rightarrow> objid \<Rightarrow> objid \<Rightarrow> (error + objid) \<times> db" where
  "removeItemFromCart_body s uid pid =
     (case Cart_findOne_live s uid of
        None \<Rightarrow> (Inl (NotFoundError ''Cart not found''), s)
      | Some cid \<Rightarrow>
          (let cart = Cart_coll s ! cid
           in case findIndex (\<lambda>item. productId item = pid) (items cart) of
                None \<Rightarrow> (Inl (NotFoundError ''Item not found in cart''), s)
              | Some itemIndex \<Rightarrow>
                  (let cart1 = cart\<lparr>items := splice1 itemIndex (items cart)\<rparr>;
                       cart2 = cart1\<lparr>totalAmount := sum_totalPrice (items cart1)\<rparr>
                   in cart_save s (Some cid, cart2))))"

definition removeItemFromCart ::
  "db \<Rightarrow> objid option \<Rightarrow> objid option \<Rightarrow> objid option
     \<Rightarrow> (error + (objid \<times> (objid \<times> int) option cart) option) \<times> db" where
  "removeItemFromCart s userIdArg productIdArg authUserId =
     (case (userIdArg, productIdArg) of
        (Some uid, Some pid) \<Rightarrow>
          if userIdArg \<noteq> authUserId
          then (Inl (ForbiddenError ''Unauthorized to modify this cart''), s)
          else (case removeItemFromCart_body s uid pid of
                  (Inl e, working) \<Rightarrow>
                    (Inl (rethrow ''Failed to remove item from cart'' e), abortTransaction s working)
                | (Inr cid, working) \<Rightarrow> (Inr (Cart_findById_populated working cid), working))
      | _ \<Rightarrow> (Inl (BadRequestError ''Invalid user or product ID''), s))"

definition updateCartItemQuantity_body :: "db \<Rightarrow> objid \<Rightarrow> objid \<Rightarrow> int \<Rightarrow> (error + objid) \<times> db" where
  "updateCartItemQuantity_body s uid pid qty =
     (case Product_findOne_available s pid of
        None \<Rightarrow> (Inl (NotFoundError ''Product not found or unavailable''), s)
      | Some product \<Rightarrow>
          if stock product < qty
          then (Inl (BadRequestError ''Insufficient stock for product''), s)
          else (case Cart_findOne_live s uid of
                  None \<Rightarrow> (Inl (NotFoundError ''Cart not found''), s)
                | Some cid \<Rightarrow>
                    (let cart = Cart_coll s ! cid
                     in case findIndex (\<lambda>item. productId item = pid) (items cart) of
                          None \<Rightarrow> (Inl (NotFoundError ''Item not found in cart''), s)
                        | Some itemIndex \<Rightarrow>
                            (let it = items cart ! itemIndex;
                                 it' = it\<lparr>quantity := qty, price := p_price product,
                                          totalPrice := p_price product * qty\<rparr>;
                                 cart1 = cart\<lparr>items := (items cart)[itemIndex := it']\<rparr>;
                                 cart2 = cart1\<lparr>totalAmount := sum_totalPrice (items cart1)\<rparr>
                             in cart_save s (Some cid, cart2)))))"

definition updateCartItemQuantity ::
  "db \<Rightarrow> objid option \<Rightarrow> objid option \<Rightarrow> int option \<Rightarrow> objid option
     \<Rightarrow> (error + (objid \<times> (objid \<times> int) option cart) option) \<times> db" where
  "updateCartItemQuantity s userIdArg productIdArg quantityArg authUserId =
     (case (userIdArg, productIdArg) of
        (Some uid, Some pid) \<Rightarrow>
          (case quantityArg of
             None \<Rightarrow> (Inl (BadRequestError ''Quantity must be a positive integer''), s)
           | Some qty \<Rightarrow>
               if qty \<le> 0 then (Inl (BadRequestError ''Quantity must be a positive integer''), s)
               else if userIdArg \<noteq> authUserId
               then (Inl (ForbiddenError ''Unauthorized to modify this cart''), s)
               else (case updateCartItemQuantity_body s uid pid qty of
                       (Inl e, working) \<Rightarrow>
                         (Inl (rethrow ''Failed to update item quantity'' e), abortTransaction s working)
                     | (Inr cid, working) \<Rightarrow> (Inr (Cart_findById_populated working cid), working)))
      | _ \<Rightarrow> (Inl (BadRequestError ''Invalid user or product ID''), s))"

definition clearCart_body :: "db \<Rightarrow> objid \<Rightarrow> (error + objid) \<times> db" where
  "clearCart_body s uid =
     (case Cart_findOne_live s uid of
        None \<Rightarrow> (Inl (NotFoundError ''Cart not found''), s)
      | Some cid \<Rightarrow>
          (let cart = Cart_coll s ! cid;
               cart1 = cart\<lparr>isDeleted := True, items := [], totalAmount := 0\<rparr>
           in cart_save s (Some cid, cart1)))"

definition clearCart :: "db \<Rightarrow> objid option \<Rightarrow> objid option \<Rightarrow> (error + string) \<times> db" where
  "clearCart s userIdArg authUserId =
     (case userIdArg of
        None \<Rightarrow> (Inl (BadRequestError ''Invalid user ID''), s)
      | Some uid \<Rightarrow>
          if userIdArg \<noteq> authUserId
          then (Inl (ForbiddenError ''Unauthorized to clear this cart''), s)
          else (case clearCart_body s uid of
                  (Inl e, working) \<Rightarrow>
                    (Inl (rethrow ''Failed to clear cart'' e), abortTransaction s working)
                | (Inr cid, working) \<Rightarrow> (Inr ''Cart cleared successfully'', working)))"

text \<open>
  \<^verbatim>\<open>getUserCart\<close> reads without a transaction. The references are populated with the whole
  product (\<^verbatim>\<open>'name price stock isActive isDeleted'\<close>); a line stays visible when its product
  is there, active, not deleted and has stock for the line's quantity. The object returned
  when no live cart is found has no \<^verbatim>\<open>_id\<close> and no \<^verbatim>\<open>isDeleted\<close>.
\<close>

record cart_view =
  cv_id :: "objid option"
  cv_userId :: objid
  cv_items :: "product option cart_item list"
  cv_totalAmount :: int
  cv_isDeleted :: "bool option"

definition populate_item_full :: "db \<Rightarrow> objid cart_item \<Rightarrow> product option cart_item" where
  "populate_item_full s item =
     \<lparr>productId = Product_coll s (productId item),
      price = price item, quantity = quantity item, totalPrice = totalPrice item\<rparr>"

definition visible :: "product option cart_item \<Rightarrow> bool" where
  "visible item =
     (case productId item of
        None \<Rightarrow> False
      | Some p \<Rightarrow> isActive p \<and> \<not> p_isDeleted p \<and> quantity item \<le> stock p)"

definition getUserCart :: "db \<Rightarrow> objid option \<Rightarrow> objid option \<Rightarrow> error + cart_view" where
  "getUserCart s userIdArg authUserId =
     (case userIdArg of
        None \<Rightarrow> Inl (BadRequestError ''Invalid user ID'')
      | Some uid \<Rightarrow>
          if userIdArg \<noteq> authUserId then Inl (ForbiddenError ''Unauthorized to view this cart'')
          else (case Cart_findOne_live s uid of
                  None \<Rightarrow> Inr \<lparr>cv_id = None, cv_userId = uid, cv_items = [], cv_totalAmount = 0,
                               cv_isDeleted = None\<rparr>
                | Some cid \<Rightarrow>
                    (let cart = Cart_coll s ! cid;
                         its = filter visible (map (populate_item_full s) (items cart))
                     in Inr \<lparr>cv_id = Some cid, cv_userId = userId cart, cv_items = its,
                              cv_totalAmount = sum_totalPrice its,
                              cv_isDeleted = Some (isDeleted cart)\<rparr>)))"

section \<open>The order model\<close>

definition payment_methods :: "string list" where
  "payment_methods = [''razorpay'', ''paypal'', ''stripe'', ''cod'']"

definition payment_statuses :: "string list" where
  "payment_statuses = [''pending'', ''completed'', ''failed'']"

definition order_statuses :: "string list" where
  "order_statuses = [''pending'', ''shipped'', ''delivered'', ''cancelled'']"

text \<open>The validators of the order schema: quantity at least 1, price and total amount at
  least 0, the three enumerations.\<close>

definition order_validate :: "order_doc \<Rightarrow> bool" where
  "order_validate this =
     (list_all (\<lambda>item. 1 \<le> ol_quantity item \<and> 0 \<le> ol_price item) (products this)
      \<and> paymentMethod this \<in> set payment_methods
      \<and> 0 \<le> o_totalAmount this
      \<and> paymentStatus this \<in> set payment_statuses
      \<and> status this \<in> set order_statuses)"

text \<open>\<^verbatim>\<open>products.reduce((sum, item) => sum + (item.price * item.quantity), 0)\<close>.\<close>

definition sum_lines :: "('a, 'b) order_line list \<Rightarrow> int" where
  "sum_lines ls = foldl (\<lambda>sum item. sum + ol_price item * ol_quantity item) 0 ls"

definition empty_address :: address where
  "empty_address = \<lparr>street = None, city = None, state = None, zip_code = None, country = None\<rparr>"

text \<open>
  \<^verbatim>\<open>Object.keys(this.shippingAddress)\<close>: the address is a nested path of the order schema,
  and its keys are the five sub-fields the schema declares, whether they are set or not.
  So \<^verbatim>\<open>Object.keys(address).length > 0\<close> holds of every address. \<open>falsy\<close> is JavaScript's
  \<^verbatim>\<open>!field\<close> on an optional string.
\<close>

definition address_keys :: "address \<Rightarrow> string list" where
  "address_keys a = [''street'', ''city'', ''state'', ''zip'', ''country'']"

definition has_keys :: "address \<Rightarrow> bool" where
  "has_keys a = (0 < length (address_keys a))"

definition falsy :: "string option \<Rightarrow> bool" where
  "falsy v = (case v of None \<Rightarrow> True | Some x \<Rightarrow> x = [])"

definition incomplete :: "address \<Rightarrow> bool" where
  "incomplete a = (falsy (street a) \<or> falsy (city a) \<or> falsy (country a))"

text \<open>\<^verbatim>\<open>orderSchema.pre('save')\<close>: the total is computed from the lines' own prices and
  quantities; an address that has keys needs street, city and country.\<close>

definition order_pre_save :: "order_doc \<Rightarrow> error + order_doc" where
  "order_pre_save this =
     (let this1 = this\<lparr>o_totalAmount := sum_lines (products this)\<rparr>
      in if has_keys (shippingAddress this1) \<and> incomplete (shippingAddress this1)
         then Inl (Error ''All shipping address fields are required if any are provided'')
         else if has_keys (billingAddress this1) \<and> incomplete (billingAddress this1)
         then Inl (Error ''All billing address fields are required if any are provided'')
         else Inr this1)"

text \<open>\<^verbatim>\<open>newOrder.save({ session })\<close> of a new order.\<close>

definition order_save_new :: "db \<Rightarrow> order_doc \<Rightarrow> (error + objid) \<times> db" where
  "order_save_new s doc =
     (if \<not> order_validate doc then (Inl (Error ''Order validation failed''), s)
      else (case order_pre_save doc of
              Inl e \<Rightarrow> (Inl e, s)
            | Inr this \<Rightarrow> (Inr (length (Order_coll s)), s\<lparr>Order_coll := Order_coll s @ [this]\<rparr>)))"

section \<open>The order service\<close>

text \<open>
  The loop of \<^verbatim>\<open>createOrder\<close> over the requested lines, with its two accumulators. A
  requested line is a pair of an id argument and a quantity argument. The product is read
  with \<^verbatim>\<open>Product.findById\<close>, which looks at the \<^verbatim>\<open>_id\<close> only.
\<close>

fun order_loop ::
  "db \<Rightarrow> (objid option \<times> int option) list \<Rightarrow> int \<Rightarrow> (objid, objid) order_line list
     \<Rightarrow> error + int \<times> (objid, objid) order_line list" where
  "order_loop s [] totalAmt productDetails = Inr (totalAmt, productDetails)"
| "order_loop s (item # rest) totalAmt productDetails =
     (case fst item of
        None \<Rightarrow> Inl (BadRequestError ''Invalid product ID'')
      | Some pid \<Rightarrow>
          (case snd item of
             None \<Rightarrow> Inl (BadRequestError ''Invalid quantity for product'')
           | Some qty \<Rightarrow>
               if qty < 1 then Inl (BadRequestError ''Invalid quantity for product'')
               else (case Product_coll s pid of
                       None \<Rightarrow> Inl (NotFoundError ''Product not found'')
                     | Some product \<Rightarrow>
                         (case product_sellerId product of
                            None \<Rightarrow> Inl (BadRequestError ''Product has no seller'')
                          | Some sellerId \<Rightarrow>
                              (let productPrice = p_price product * qty
                               in order_loop s rest (totalAmt + productPrice)
                                    (productDetails @ [\<lparr>ol_productId = pid, ol_quantity = qty,
                                                 ol_price = p_price product,
                                                 ol_sellerId = sellerId\<rparr>]))))))"

text \<open>
  The \<^verbatim>\<open>try\<close> block of \<^verbatim>\<open>createOrder\<close>. \<open>sendEmail\<close> is the email service, which is not part
  of the repository's files: it is a parameter that tells, for a recipient, whether the
  call returns (\<open>None\<close>) or throws (\<open>Some e\<close>). The call is awaited after the order is saved
  in the session and before the transaction is committed.
\<close>

definition createOrder_body ::
  "(string \<Rightarrow> error option) \<Rightarrow> db \<Rightarrow> objid \<Rightarrow> (objid option \<times> int option) list
     \<Rightarrow> address option \<Rightarrow> address option \<Rightarrow> string \<Rightarrow> (error + objid) \<times> db" where
  "createOrder_body sendEmail s uid reqs shipping billing method =
     (case order_loop s reqs 0 [] of
        Inl e \<Rightarrow> (Inl e, s)
      | Inr (totalAmt, productDetails) \<Rightarrow>
          (let newOrder =
                 \<lparr>o_userId = uid, products = productDetails,
                  shippingAddress = (case shipping of None \<Rightarrow> empty_address | Some a \<Rightarrow> a),
                  billingAddress = (case billing of None \<Rightarrow> empty_address | Some a \<Rightarrow> a),
                  paymentMethod = method, razorpayOrderId = None, o_totalAmount = totalAmt,
                  paymentStatus = ''pending'', status = ''pending'', o_isDeleted = False\<rparr>
           in case order_save_new s newOrder of
                (Inl e, working) \<Rightarrow> (Inl e, working)
              | (Inr oid, working) \<Rightarrow>
                  (case User_coll working uid of
                     None \<Rightarrow> (Inr oid, working)
                   | Some u \<Rightarrow>
                       if falsy (email u) then (Inr oid, working)
                       else (case sendEmail (the (email u)) of
                               Some e \<Rightarrow> (Inl e, working)
                             | None \<Rightarrow> (Inr oid, working)))))"

definition createOrder ::
  "(string \<Rightarrow> error option) \<Rightarrow> db \<Rightarrow> objid option \<Rightarrow> (objid option \<times> int option) list
     \<Rightarrow> address option \<Rightarrow> address option \<Rightarrow> string option
     \<Rightarrow> (error + objid \<times> order_doc) \<times> db" where
  "createOrder sendEmail s userIdArg reqs shipping billing methodArg =
     (case userIdArg of
        None \<Rightarrow> (Inl (BadRequestError ''Invalid user ID''), s)
      | Some uid \<Rightarrow>
          if reqs = []
          then (Inl (BadRequestError ''Products array is required and cannot be empty''), s)
          else (case createOrder_body sendEmail s uid reqs shipping billing
                       (case methodArg of None \<Rightarrow> ''razorpay'' | Some m \<Rightarrow> m) of
                  (Inl e, working) \<Rightarrow>
                    (Inl (if has_status e then e else Error ''Error creating order''),
                     abortTransaction s working)
                | (Inr oid, working) \<Rightarrow> (Inr (oid, Order_coll working ! oid), working)))"

text \<open>
  \<^verbatim>\<open>populate('products.productId', 'name price')\<close> and \<^verbatim>\<open>populate('products.sellerId', 'name')\<close>
  on an order: the product reference becomes the product's \<^verbatim>\<open>_id\<close> and current price, the
  seller reference the user's \<^verbatim>\<open>_id\<close>, each null when the document is not stored. The
  line's own price and the order's total are fields of the order and stay as stored.
\<close>

definition populate_line ::
  "db \<Rightarrow> (objid, objid) order_line \<Rightarrow> ((objid \<times> int) option, objid option) order_line" where
  "populate_line s l =
     \<lparr>ol_productId = map_option (\<lambda>p. (ol_productId l, p_price p)) (Product_coll s (ol_productId l)),
      ol_quantity = ol_quantity l, ol_price = ol_price l,
      ol_sellerId = map_option (\<lambda>u. ol_sellerId l) (User_coll s (ol_sellerId l))\<rparr>"

definition populate_order ::
  "db \<Rightarrow> order_doc \<Rightarrow> ((objid \<times> int) option, objid option) order" where
  "populate_order s ord =
     \<lparr>o_userId = o_userId ord, products = map (populate_line s) (products ord),
      shippingAddress = shippingAddress ord, billingAddress = billingAddress ord,
      paymentMethod = paymentMethod ord, razorpayOrderId = razorpayOrderId ord,
      o_totalAmount = o_totalAmount ord, paymentStatus = paymentStatus ord,
      status = status ord, o_isDeleted = o_isDeleted ord\<rparr>"

text \<open>\<^verbatim>\<open>getOrderDetails\<close>: \<^verbatim>\<open>Order.findOne({ _id: orderId, userId, isDeleted: false })\<close>,
  populated.\<close>

definition getOrderDetails ::
  "db \<Rightarrow> objid option \<Rightarrow> objid option
     \<Rightarrow> error + objid \<times> ((objid \<times> int) option, objid option) order" where
  "getOrderDetails s userIdArg orderIdArg =
     (case (userIdArg, orderIdArg) of
        (Some uid, Some oid) \<Rightarrow>
          if oid < length (Order_coll s) \<and> o_userId (Order_coll s ! oid) = uid
             \<and> \<not> o_isDeleted (Order_coll s ! oid)
          then Inr (oid, populate_order s (Order_coll s ! oid))
          else Inl (NotFoundError ''Order not found'')
      | _ \<Rightarrow> Inl (BadRequestError ''Invalid user or order ID''))"

text \<open>
  \<^verbatim>\<open>getUserOrders\<close>: the user's orders that are not deleted, populated, one page of them.
  The model covers \<open>1 \<le> page\<close> and \<open>1 \<le> limit\<close>; what the store does with a negative skip
  or a limit of zero is not in the repository.
\<close>

definition getUserOrders ::
  "db \<Rightarrow> objid option \<Rightarrow> nat \<Rightarrow> nat
     \<Rightarrow> error + (objid \<times> ((objid \<times> int) option, objid option) order) list" where
  "getUserOrders s userIdArg page limit =
     (case userIdArg of
        None \<Rightarrow> Inl (BadRequestError ''Invalid user ID'')
      | Some uid \<Rightarrow>
          (let matching = filter (\<lambda>d. o_userId (snd d) = uid \<and> \<not> o_isDeleted (snd d))
                            (zip [0 ..< length (Order_coll s)] (Order_coll s))
           in Inr (map (\<lambda>d. (fst d, populate_order s (snd d)))
                     (take limit (drop ((page - 1) * limit) matching)))))"

section \<open>The payment callback\<close>

text \<open>\<^verbatim>\<open>Order.findOneAndUpdate({ razorpayOrderId }, update, { new: true })\<close>: the first order
  with that gateway id is updated and returned; no validator runs on the update.\<close>

definition Order_findOneAndUpdate ::
  "db \<Rightarrow> string \<Rightarrow> (order_doc \<Rightarrow> order_doc) \<Rightarrow> (objid \<times> order_doc) option \<times> db" where
  "Order_findOneAndUpdate s rid upd =
     (case findIndex (\<lambda>d. razorpayOrderId d = Some rid) (Order_coll s) of
        None \<Rightarrow> (None, s)
      | Some i \<Rightarrow>
          (let d = upd (Order_coll s ! i)
           in (Some (i, d), s\<lparr>Order_coll := (Order_coll s)[i := d]\<rparr>)))"

text \<open>\<^verbatim>\<open>paymentService.updatePaymentStatus\<close>.\<close>

definition updatePaymentStatus :: "db \<Rightarrow> string \<Rightarrow> string \<Rightarrow> (objid \<times> order_doc) option \<times> db" where
  "updatePaymentStatus s rid st = Order_findOneAndUpdate s rid (\<lambda>d. d\<lparr>paymentStatus := st\<rparr>)"

text \<open>
  The controller \<^verbatim>\<open>verifyPayment\<close>. \<open>isVerified\<close> is the result of the signature check of
  \<^verbatim>\<open>paymentService.verifyPayment\<close> (an HMAC comparison). The result is the HTTP status of the
  response. The confirmation email is sent inside a \<^verbatim>\<open>try\<close> of its own whose \<^verbatim>\<open>catch\<close> only
  logs.
\<close>

definition verifyPayment ::
  "(string \<Rightarrow> error option) \<Rightarrow> db \<Rightarrow> bool \<Rightarrow> string \<Rightarrow> nat \<times> db" where
  "verifyPayment sendEmail s isVerified rid =
     (if isVerified
      then (let s1 = snd (updatePaymentStatus s rid ''completed'');
                r = Order_findOneAndUpdate s1 rid (\<lambda>d. d\<lparr>status := ''shipped''\<rparr>)
            in case fst r of
                 None \<Rightarrow> (404, snd r)
               | Some updatedOrder \<Rightarrow>
                   (case User_coll (snd r) (o_userId (snd updatedOrder)) of
                      None \<Rightarrow> (200, snd r)
                    | Some u \<Rightarrow>
                        if falsy (email u) then (200, snd r)
                        else (case sendEmail (the (email u)) of
                                Some emailError \<Rightarrow> (200, snd r)
                              | None \<Rightarrow> (200, snd r))))
      else (let s1 = snd (updatePaymentStatus s rid ''failed'');
                r = Order_findOneAndUpdate s1 rid (\<lambda>d. d\<lparr>status := ''failed''\<rparr>)
            in case fst r of
                 None \<Rightarrow> (404, snd r)
               | Some updatedOrder \<Rightarrow> (400, snd r)))"

section \<open>Properties and sample states\<close>

text \<open>
  The predicates the theorems below are stated with. A line is accepted by the pre-save
  hook (\<open>line_ok\<close>) when its product is stored, active, not deleted and has stock for the
  line's quantity. \<open>reprice\<close> is what the hook writes on such a line; \<open>saved\<close> is the
  document the hook hands to the store.
\<close>

definition line_ok :: "db \<Rightarrow> objid cart_item \<Rightarrow> bool" where
  "line_ok s item =
     (case Product_coll s (productId item) of
        None \<Rightarrow> False
      | Some p \<Rightarrow> isActive p \<and> \<not> p_isDeleted p \<and> quantity item \<le> stock p)"

definition reprice :: "db \<Rightarrow> objid cart_item \<Rightarrow> objid cart_item" where
  "reprice s item =
     (case Product_coll s (productId item) of
        None \<Rightarrow> item
      | Some p \<Rightarrow> item\<lparr>price := p_price p, totalPrice := p_price p * quantity item\<rparr>)"

definition saved :: "db \<Rightarrow> cart_doc \<Rightarrow> cart_doc" where
  "saved s c = c\<lparr>items := map (reprice s) (items c),
                 totalAmount := sum_totalPrice (map (reprice s) (items c))\<rparr>"

text \<open>The cart invariant: every line's total is price times quantity, every line's price
  is the catalog's price of its product, and the cart's total is the sum of the lines'
  totals.\<close>

definition cart_consistent :: "db \<Rightarrow> cart_doc \<Rightarrow> bool" where
  "cart_consistent s c =
     (list_all (\<lambda>item. totalPrice item = price item * quantity item
                   \<and> map_option p_price (Product_coll s (productId item)) = Some (price item))
        (items c)
      \<and> totalAmount c = sum_list (map totalPrice (items c)))"

text \<open>The lines of the user's live cart; none when the user has no live cart.\<close>

definition live_items :: "db \<Rightarrow> objid \<Rightarrow> objid cart_item list" where
  "live_items s uid =
     (case Cart_findOne_live s uid of None \<Rightarrow> [] | Some cid \<Rightarrow> items (Cart_coll s ! cid))"

text \<open>What a successful save of the user's cart \<open>c\<close> in state \<open>s\<close> leaves in the working
  state \<open>w\<close>: the document under \<open>cid\<close> is the saved one and is the user's live cart, and
  nothing else has changed.\<close>

definition stored_as :: "db \<Rightarrow> db \<Rightarrow> objid \<Rightarrow> objid \<Rightarrow> cart_doc \<Rightarrow> bool" where
  "stored_as s w uid cid c =
     (Cart_findOne_live w uid = Some cid \<and> cid < length (Cart_coll w)
      \<and> Cart_coll w ! cid = saved s c
      \<and> Product_coll w = Product_coll s \<and> Order_coll w = Order_coll s \<and> User_coll w = User_coll s
      \<and> length (Cart_coll s) \<le> length (Cart_coll w)
      \<and> (\<forall>j<length (Cart_coll w). j \<noteq> cid \<longrightarrow> j < length (Cart_coll s) \<and> Cart_coll w ! j = Cart_coll s ! j)
      \<and> cart_validate c \<and> list_all (line_ok s) (items c))"

text \<open>The quantity of a product in the user's live cart, 0 when it is not there; and the
  invariant that no stored cart has two lines for one product.\<close>

definition in_cart :: "db \<Rightarrow> objid \<Rightarrow> objid \<Rightarrow> int" where
  "in_cart s uid pid =
     (case findIndex (\<lambda>item. productId item = pid) (live_items s uid) of
        None \<Rightarrow> 0
      | Some i \<Rightarrow> quantity (live_items s uid ! i))"

definition no_duplicate_lines :: "db \<Rightarrow> bool" where
  "no_duplicate_lines s = list_all (\<lambda>c. distinct (map productId (items c))) (Cart_coll s)"

text \<open>The schema validators on the lines of a stored cart; and the document
  \<^verbatim>\<open>addItemToCart\<close> works on, the user's live cart or a new empty one.\<close>

definition lines_valid :: "objid cart_item list \<Rightarrow> bool" where
  "lines_valid its =
     (list_all (\<lambda>item. 0 \<le> price item \<and> 1 \<le> quantity item \<and> 0 \<le> totalPrice item) its
      \<and> distinct (map productId its))"

definition cart_or_new :: "db \<Rightarrow> objid \<Rightarrow> cart_doc" where
  "cart_or_new s uid =
     (case Cart_findOne_live s uid of
        Some cid \<Rightarrow> Cart_coll s ! cid
      | None \<Rightarrow> \<lparr>userId = uid, items = [], totalAmount = 0, isDeleted = False\<rparr>)"

text \<open>What a fetched order reports of its amounts: its id, its total and its lines' unit
  prices.\<close>

definition order_amounts :: "objid \<times> ('a, 'b) order \<Rightarrow> objid \<times> int \<times> int list" where
  "order_amounts d = (fst d, o_totalAmount (snd d), map ol_price (products (snd d)))"

text \<open>
  Sample states. Product 1 costs 100 and has 5 in stock, product 2 costs 30 and has 4 in
  stock, product 3 is soft-deleted. User 10 has an email address; users 7 and 8 are the
  sellers. \<open>shop1\<close> holds a cart of
  user 10 with three of product 1; \<open>shop2\<close> a cart with three of product 1, stored at an
  older price of 90, and one of product 2; \<open>shop3\<close> a cart with one of product 1 and one
  of the soft-deleted product 3. \<open>catalog2\<close> is the catalog after the price of product 1
  has gone up to 120.
\<close>

definition catalog1 :: "objid \<rightharpoonup> product" where
  "catalog1 =
     [1 \<mapsto> \<lparr>p_price = 100, stock = 5, isActive = True, p_isDeleted = False, seller = 7\<rparr>,
      2 \<mapsto> \<lparr>p_price = 30, stock = 4, isActive = True, p_isDeleted = False, seller = 7\<rparr>,
      3 \<mapsto> \<lparr>p_price = 50, stock = 9, isActive = True, p_isDeleted = True, seller = 8\<rparr>]"

definition users1 :: "objid \<rightharpoonup> user" where
  "users1 = [10 \<mapsto> \<lparr>email = Some ''u1@example.org''\<rparr>,
             7 \<mapsto> \<lparr>email = None\<rparr>, 8 \<mapsto> \<lparr>email = None\<rparr>]"

definition shop0 :: db where
  "shop0 = \<lparr>Product_coll = catalog1, Cart_coll = [], Order_coll = [], User_coll = users1\<rparr>"

definition shop1 :: db where
  "shop1 = shop0\<lparr>Cart_coll := [\<lparr>userId = 10,
      items = [\<lparr>productId = 1, price = 100, quantity = 3, totalPrice = 300\<rparr>],
      totalAmount = 300, isDeleted = False\<rparr>]\<rparr>"

definition shop2 :: db where
  "shop2 = shop0\<lparr>Cart_coll := [\<lparr>userId = 10,
      items = [\<lparr>productId = 1, price = 90, quantity = 3, totalPrice = 270\<rparr>,
               \<lparr>productId = 2, price = 30, quantity = 1, totalPrice = 30\<rparr>],
      totalAmount = 300, isDeleted = False\<rparr>]\<rparr>"

definition shop3 :: db where
  "shop3 = shop0\<lparr>Cart_coll := [\<lparr>userId = 10,
      items = [\<lparr>productId = 1, price = 100, quantity = 1, totalPrice = 100\<rparr>,
               \<lparr>productId = 3, price = 50, quantity = 1, totalPrice = 50\<rparr>],
      totalAmount = 150, isDeleted = False\<rparr>]\<rparr>"

definition catalog2 :: "objid \<rightharpoonup> product" where
  "catalog2 = catalog1(1 \<mapsto> \<lparr>p_price = 120, stock = 5, isActive = True, p_isDeleted = False,
                              seller = 7\<rparr>)"

text \<open>
  Sample orders. \<open>new_order1\<close> is a new order document of user 10 for two of product 1 at
  the unit price 100, with both addresses and a total of 999 put in by its creator;
  \<open>order1\<close> is that order with the total of its lines. \<open>shop4\<close> holds an order that the
  payment gateway knows as \<^verbatim>\<open>order_A1\<close>. \<open>smtp_down\<close> is an email service whose every call
  throws.
\<close>

definition full_address :: address where
  "full_address = \<lparr>street = Some ''1 Main St'', city = Some ''Pune'', state = None,
                    zip_code = None, country = Some ''IN''\<rparr>"

definition new_order1 :: order_doc where
  "new_order1 =
     \<lparr>o_userId = 10,
      products = [\<lparr>ol_productId = 1, ol_quantity = 2, ol_price = 100, ol_sellerId = 7\<rparr>],
      shippingAddress = full_address, billingAddress = full_address,
      paymentMethod = ''cod'', razorpayOrderId = None, o_totalAmount = 999,
      paymentStatus = ''pending'', status = ''pending'', o_isDeleted = False\<rparr>"

definition order1 :: order_doc where
  "order1 = new_order1\<lparr>o_totalAmount := 200\<rparr>"

definition paid_order :: order_doc where
  "paid_order =
     \<lparr>o_userId = 10,
      products = [\<lparr>ol_productId = 1, ol_quantity = 2, ol_price = 100, ol_sellerId = 7\<rparr>],
      shippingAddress = empty_address, billingAddress = empty_address,
      paymentMethod = ''razorpay'', razorpayOrderId = Some ''order_A1'', o_totalAmount = 200,
      paymentStatus = ''pending'', status = ''pending'', o_isDeleted = False\<rparr>"

definition shop4 :: db where
  "shop4 = shop0\<lparr>Order_coll := [paid_order]\<rparr>"

definition smtp_down :: "string \<Rightarrow> error option" where
  "smtp_down recipient = Some (Error ''connect ECONNREFUSED'')"

section \<open>Lemmas about the cart model\<close>

lemma findIndex_Some:
  "findIndex P xs = Some i \<Longrightarrow> i < length xs \<and> P (xs ! i) \<and> (\<forall>j<i. \<not> P (xs ! j))"
proof (induction xs arbitrary: i)
  case Nil
  then show ?case by simp
next
  case (Cons x xs)
  show ?case
  proof (cases "P x")
    case True
    with Cons.prems show ?thesis by simp
  next
    case False
    with Cons.prems obtain k where k: "findIndex P xs = Some k" "i = Suc k" by auto
    from Cons.IH[OF k(1)] False k(2) show ?thesis
      by (auto simp: nth_Cons split: nat.splits)
  qed
qed

lemma findIndex_None: "findIndex P xs = None \<longleftrightarrow> (\<forall>x\<in>set xs. \<not> P x)"
  by (induction xs) auto

lemma findIndex_first:
  "i < length xs \<Longrightarrow> P (xs ! i) \<Longrightarrow> (\<forall>j<i. \<not> P (xs ! j)) \<Longrightarrow> findIndex P xs = Some i"
proof (induction xs arbitrary: i)
  case Nil
  then show ?case by simp
next
  case (Cons x xs)
  show ?case
  proof (cases i)
    case 0
    with Cons.prems show ?thesis by simp
  next
    case (Suc k)
    with Cons.prems have "\<not> P x" by auto
    moreover have "findIndex P xs = Some k"
      using Cons.prems Suc by (intro Cons.IH) auto
    ultimately show ?thesis using Suc by simp
  qed
qed

lemma sum_totalPrice_eq: "sum_totalPrice its = sum_list (map totalPrice its)"
proof -
  have "foldl (\<lambda>sum item. sum + totalPrice item) a its = a + sum_list (map totalPrice its)" for a
    by (induction its arbitrary: a) auto
  then show ?thesis by (simp add: sum_totalPrice_def)
qed

lemma find_available_mem:
  "p \<in> set (Product_find_available s ids) \<Longrightarrow>
     fst p \<in> set ids \<and> Product_findOne_available s (fst p) = Some (snd p)"
  by (auto simp: Product_find_available_def List.map_filter_def split: option.splits)

lemma find_fst_Some:
  "find (\<lambda>p. fst p = i) found = Some p \<Longrightarrow> p \<in> set found \<and> fst p = i"
  by (auto simp: find_Some_iff)

lemma length_find_available:
  "length (Product_find_available s ids) = length ids \<longleftrightarrow>
     distinct ids \<and> (\<forall>i\<in>set ids. Product_findOne_available s i \<noteq> None)"
proof -
  let ?f = "\<lambda>i. case Product_findOne_available s i of None \<Rightarrow> None | Some p \<Rightarrow> Some (i, p)"
  have len: "length (Product_find_available s ids) = length (filter (\<lambda>i. ?f i \<noteq> None) (remdups ids))"
    by (simp add: Product_find_available_def List.map_filter_def)
  have le1: "length (filter (\<lambda>i. ?f i \<noteq> None) (remdups ids)) \<le> length (remdups ids)"
    by (rule length_filter_le)
  have le2: "length (remdups ids) \<le> length ids"
    by (rule length_remdups_leq)
  have fn: "?f i \<noteq> None \<longleftrightarrow> Product_findOne_available s i \<noteq> None" for i
    by (simp split: option.splits)
  show ?thesis
  proof
    assume eq: "length (Product_find_available s ids) = length ids"
    with len le1 le2 have a: "length (remdups ids) = length ids"
      and b: "length (filter (\<lambda>i. ?f i \<noteq> None) (remdups ids)) = length (remdups ids)"
      by linarith+
    from a have d: "distinct ids" by (metis distinct_remdups length_remdups_eq card_distinct distinct_card)
    from b have "\<forall>i\<in>set (remdups ids). ?f i \<noteq> None"
      by (metis (mono_tags, lifting) length_filter_less linorder_not_le order_refl) 
    with d fn show "distinct ids \<and> (\<forall>i\<in>set ids. Product_findOne_available s i \<noteq> None)" by auto
  next
    assume h: "distinct ids \<and> (\<forall>i\<in>set ids. Product_findOne_available s i \<noteq> None)"
    then have "filter (\<lambda>i. ?f i \<noteq> None) (remdups ids) = ids"
      using fn by (simp add: distinct_remdups_id)
    with len show "length (Product_find_available s ids) = length ids" by simp
  qed
qed

lemma available_iff:
  "Product_findOne_available s i = Some p \<longleftrightarrow>
     Product_coll s i = Some p \<and> isActive p \<and> \<not> p_isDeleted p"
  by (auto simp: Product_findOne_available_def split: option.splits)


lemma find_in_available:
  "find (\<lambda>p. fst p = i) (Product_find_available s ids) =
     (if i \<in> set ids then map_option (\<lambda>p. (i, p)) (Product_findOne_available s i) else None)"
proof (cases "find (\<lambda>p. fst p = i) (Product_find_available s ids)")
  case None
  then have no: "\<forall>p\<in>set (Product_find_available s ids). fst p \<noteq> i"
    by (auto simp: find_None_iff)
  have "Product_findOne_available s i = None" if "i \<in> set ids"
  proof (rule ccontr)
    assume "Product_findOne_available s i \<noteq> None"
    then obtain p where "Product_findOne_available s i = Some p" by auto
    with that have "(i, p) \<in> set (Product_find_available s ids)"
      by (force simp: Product_find_available_def List.map_filter_def)
    with no show False by auto
  qed
  with None show ?thesis by auto
next
  case (Some q)
  then have "q \<in> set (Product_find_available s ids)" "fst q = i"
    by (auto dest: find_fst_Some)
  with find_available_mem[of q s ids] Some show ?thesis
    by (cases q) auto
qed

lemma revalidate_items_result:
  "revalidate_items (Product_find_available s ids) its = Inr its' \<Longrightarrow>
     set (map productId its) \<subseteq> set ids \<and> list_all (line_ok s) its \<and> its' = map (reprice s) its"
proof (induction its arbitrary: its')
  case Nil
  then show ?case by simp
next
  case (Cons item rest)
  from Cons.prems obtain p rest' where
    f: "find (\<lambda>p. fst p = productId item) (Product_find_available s ids) = Some p"
    and st: "\<not> stock (snd p) < quantity item"
    and r: "revalidate_items (Product_find_available s ids) rest = Inr rest'"
    and res: "its' = (item\<lparr>price := p_price (snd p), totalPrice := p_price (snd p) * quantity item\<rparr>) # rest'"
    by (auto simp: Let_def split: option.splits if_splits sum.splits)
  from f have mem: "productId item \<in> set ids"
    and av: "Product_findOne_available s (productId item) = Some (snd p)"
    by (auto simp: find_in_available split: if_splits)
  from av have coll: "Product_coll s (productId item) = Some (snd p)"
    and act: "isActive (snd p)" "\<not> p_isDeleted (snd p)"
    by (auto simp: available_iff)
  from Cons.IH[OF r] mem coll act st res show ?case
    by (auto simp: line_ok_def reprice_def)
qed

lemma revalidate_items_succeeds:
  "set (map productId its) \<subseteq> set ids \<Longrightarrow> list_all (line_ok s) its \<Longrightarrow>
     revalidate_items (Product_find_available s ids) its = Inr (map (reprice s) its)"
proof (induction its)
  case Nil
  then show ?case by simp
next
  case (Cons item rest)
  from Cons.prems obtain p where coll: "Product_coll s (productId item) = Some p"
    and ok: "isActive p" "\<not> p_isDeleted p" "quantity item \<le> stock p"
    by (auto simp: line_ok_def split: option.splits)
  then have av: "Product_findOne_available s (productId item) = Some p"
    by (simp add: available_iff)
  from Cons.prems have mem: "productId item \<in> set ids" by simp
  have f: "find (\<lambda>q. fst q = productId item) (Product_find_available s ids) = Some (productId item, p)"
    using mem av by (simp add: find_in_available)
  have r: "revalidate_items (Product_find_available s ids) rest = Inr (map (reprice s) rest)"
    using Cons by simp
  show ?case using f r ok coll by (simp add: Let_def reprice_def)
qed

lemma line_ok_available:
  "line_ok s item \<Longrightarrow> Product_findOne_available s (productId item) \<noteq> None"
  by (auto simp: line_ok_def Product_findOne_available_def split: option.splits)

lemma cart_pre_save_Inr:
  "cart_pre_save s c = Inr c' \<Longrightarrow>
     distinct (map productId (items c)) \<and> list_all (line_ok s) (items c) \<and>
     c' = c\<lparr>items := map (reprice s) (items c),
            totalAmount := sum_totalPrice (map (reprice s) (items c))\<rparr>"
proof -
  assume a: "cart_pre_save s c = Inr c'"
  let ?ids = "map productId (items c)"
  from a have len: "length (Product_find_available s ?ids) = length ?ids"
    by (auto simp: cart_pre_save_def Let_def split: if_splits)
  from a obtain its' where r: "revalidate_items (Product_find_available s ?ids) (items c) = Inr its'"
    and c': "c' = c\<lparr>items := its', totalAmount := sum_totalPrice its'\<rparr>"
    by (auto simp: cart_pre_save_def Let_def split: if_splits sum.splits)
  from len have "distinct ?ids" by (simp only: length_find_available)
  with revalidate_items_result[OF r] c' show ?thesis by simp
qed

lemma cart_pre_save_succeeds:
  assumes "distinct (map productId (items c))" and "list_all (line_ok s) (items c)"
  shows "cart_pre_save s c = Inr (c\<lparr>items := map (reprice s) (items c),
            totalAmount := sum_totalPrice (map (reprice s) (items c))\<rparr>)"
proof -
  have "\<forall>i\<in>set (map productId (items c)). Product_findOne_available s i \<noteq> None"
    using assms(2) by (auto simp: list_all_iff dest: line_ok_available)
  with assms(1) have len: "length (Product_find_available s (map productId (items c))) = length (map productId (items c))"
    by (simp only: length_find_available) 
  have "revalidate_items (Product_find_available s (map productId (items c))) (items c) = Inr (map (reprice s) (items c))"
    using assms(2) by (intro revalidate_items_succeeds) auto
  with len show ?thesis by (simp add: cart_pre_save_def Let_def)
qed

lemma revalidate_items_Inl: "revalidate_items found its = Inl e \<Longrightarrow> \<not> has_status e"
  by (induction its) (auto simp: Let_def split: option.splits if_splits sum.splits)

lemma cart_pre_save_Inl: "cart_pre_save s c = Inl e \<Longrightarrow> \<not> has_status e"
  by (auto simp: cart_pre_save_def Let_def split: if_splits sum.splits
      dest: revalidate_items_Inl)

lemma cart_save_Inl: "cart_save s doc = (Inl e, w) \<Longrightarrow> w = s \<and> \<not> has_status e"
  by (auto simp: cart_save_def split: if_splits sum.splits option.splits
      dest: cart_pre_save_Inl)

lemma cart_save_Inr:
  assumes "cart_save s doc = (Inr cid, w)"
  shows "cart_validate (snd doc) \<and> distinct (map productId (items (snd doc)))
         \<and> list_all (line_ok s) (items (snd doc))
         \<and> (case fst doc of
               None \<Rightarrow> cid = length (Cart_coll s)
                        \<and> w = s\<lparr>Cart_coll := Cart_coll s @ [saved s (snd doc)]\<rparr>
             | Some i \<Rightarrow> cid = i \<and> w = s\<lparr>Cart_coll := (Cart_coll s)[i := saved s (snd doc)]\<rparr>)"
proof -
  from assms have v: "cart_validate (snd doc)"
    by (auto simp: cart_save_def split: if_splits)
  from assms v obtain c' where p: "cart_pre_save s (snd doc) = Inr c'"
    by (auto simp: cart_save_def split: sum.splits)
  from cart_pre_save_Inr[OF p] have c': "c' = saved s (snd doc)"
    and ok: "distinct (map productId (items (snd doc)))" "list_all (line_ok s) (items (snd doc))"
    by (auto simp: saved_def)
  from assms v p c' ok show ?thesis
    by (auto simp: cart_save_def split: option.splits)
qed

lemma cart_save_succeeds:
  assumes "cart_validate (snd doc)" and "list_all (line_ok s) (items (snd doc))"
  shows "cart_save s doc =
           (case fst doc of
              None \<Rightarrow> (Inr (length (Cart_coll s)), s\<lparr>Cart_coll := Cart_coll s @ [saved s (snd doc)]\<rparr>)
            | Some i \<Rightarrow> (Inr i, s\<lparr>Cart_coll := (Cart_coll s)[i := saved s (snd doc)]\<rparr>))"
proof -
  from assms(1) have "distinct (map productId (items (snd doc)))"
    by (simp add: cart_validate_def)
  from cart_pre_save_succeeds[OF this assms(2)] assms(1) show ?thesis
    by (simp add: cart_save_def saved_def split: option.splits)
qed

lemma saved_consistent:
  assumes "list_all (line_ok s) (items c)" and "Product_coll s' = Product_coll s"
  shows "cart_consistent s' (saved s c)"
proof -
  have "totalPrice (reprice s item) = price (reprice s item) * quantity (reprice s item)
        \<and> map_option p_price (Product_coll s (productId (reprice s item))) = Some (price (reprice s item))"
    if "line_ok s item" for item
    using that by (auto simp: line_ok_def reprice_def split: option.splits)
  with assms show ?thesis
    by (auto simp: cart_consistent_def saved_def sum_totalPrice_eq list_all_iff)
qed

lemma saved_fields [simp]:
  "userId (saved s c) = userId c" "isDeleted (saved s c) = isDeleted c"
  "map productId (items (saved s c)) = map productId (items c)"
  "map quantity (items (saved s c)) = map quantity (items c)"
  by (auto simp: saved_def reprice_def split: option.splits)

lemma saved_line_ok:
  "list_all (line_ok s) (items c) \<Longrightarrow> list_all (line_ok s) (items (saved s c))"
  by (auto simp: saved_def list_all_iff line_ok_def reprice_def split: option.splits)

lemma findIndex_update:
  assumes "findIndex P xs = Some i" and "P x"
  shows "findIndex P (xs[i := x]) = Some i"
proof -
  from findIndex_Some[OF assms(1)] have "i < length xs" "\<forall>j<i. \<not> P (xs ! j)" by auto
  with assms(2) show ?thesis by (intro findIndex_first) auto
qed

lemma findIndex_append_new:
  assumes "findIndex P xs = None" and "P x"
  shows "findIndex P (xs @ [x]) = Some (length xs)"
proof -
  from assms(1) have "\<forall>j<length xs. \<not> P (xs ! j)" by (auto simp: findIndex_None)
  with assms(2) show ?thesis by (intro findIndex_first) (auto simp: nth_append)
qed

lemma save_live_cart:
  assumes sv: "cart_save s (Cart_findOne_live s uid, c) = (Inr cid, w)"
    and u: "userId c = uid" and d: "\<not> isDeleted c"
  shows "stored_as s w uid cid c"
proof (cases "Cart_findOne_live s uid")
  case None
  with cart_save_Inr[OF sv] have cid: "cid = length (Cart_coll s)"
    and w: "w = s\<lparr>Cart_coll := Cart_coll s @ [saved s c]\<rparr>"
    and ok: "cart_validate c" "list_all (line_ok s) (items c)" by auto
  have "Cart_findOne_live w uid = Some cid"
    using None u d unfolding Cart_findOne_live_def w cid
    by (simp add: findIndex_append_new)
  with cid w ok show ?thesis
    by (auto simp: stored_as_def nth_append)
next
  case (Some i)
  with cart_save_Inr[OF sv] have cid: "cid = i"
    and w: "w = s\<lparr>Cart_coll := (Cart_coll s)[i := saved s c]\<rparr>"
    and ok: "cart_validate c" "list_all (line_ok s) (items c)" by auto
  from Some have i: "i < length (Cart_coll s)"
    by (auto simp: Cart_findOne_live_def dest: findIndex_Some)
  have "Cart_findOne_live w uid = Some cid"
    using Some u d unfolding Cart_findOne_live_def w cid
    by (simp add: findIndex_update)
  with cid w ok i show ?thesis
    by (auto simp: stored_as_def)
qed

lemma live_cart_fields:
  assumes "Cart_findOne_live s uid = Some cid"
  shows "cid < length (Cart_coll s)" "userId (Cart_coll s ! cid) = uid" "\<not> isDeleted (Cart_coll s ! cid)"
  using findIndex_Some[OF assms[unfolded Cart_findOne_live_def]] by auto

lemma addItemToCart_body_Inl:
  "addItemToCart_body s uid pid qty = (Inl e, w) \<Longrightarrow> w = s"
  by (auto simp: addItemToCart_body_def cart_addItem_def Let_def
      split: option.splits if_splits dest: cart_save_Inl)

lemma addItemToCart_body_Inr:
  assumes "addItemToCart_body s uid pid qty = (Inr cid, w)"
  shows "\<exists>pr c. Product_findOne_available s pid = Some pr \<and> qty \<le> stock pr
           \<and> userId c = uid \<and> \<not> isDeleted c
           \<and> items c = merge_item pr pid qty (live_items s uid)
           \<and> stored_as s w uid cid c"
proof -
  from assms obtain pr where pr: "Product_findOne_available s pid = Some pr" and st: "qty \<le> stock pr"
    by (auto simp: addItemToCart_body_def split: option.splits if_splits)
  define c0 where "c0 = (case Cart_findOne_live s uid of
       Some cid \<Rightarrow> Cart_coll s ! cid
     | None \<Rightarrow> \<lparr>userId = uid, items = [], totalAmount = 0, isDeleted = False\<rparr>)"
  define c1 where "c1 = c0\<lparr>items := merge_item pr pid qty (items c0)\<rparr>"
  define c where "c = c1\<lparr>totalAmount := sum_totalPrice (items c1)\<rparr>"
  have c0: "userId c0 = uid" "\<not> isDeleted c0" "items c0 = live_items s uid"
    by (auto simp: c0_def live_items_def split: option.splits dest: live_cart_fields)
  from assms pr st have sv: "cart_save s (Cart_findOne_live s uid, c) = (Inr cid, w)"
    by (auto simp: addItemToCart_body_def cart_addItem_def Let_def c_def c1_def c0_def
        split: option.splits)
  have "userId c = uid" "\<not> isDeleted c" "items c = merge_item pr pid qty (live_items s uid)"
    using c0 by (simp_all add: c_def c1_def)
  with save_live_cart[OF sv] pr st show ?thesis by blast
qed

lemma removeItemFromCart_body_Inl:
  "removeItemFromCart_body s uid pid = (Inl e, w) \<Longrightarrow> w = s"
  by (auto simp: removeItemFromCart_body_def Let_def
      split: option.splits if_splits dest: cart_save_Inl)

lemma removeItemFromCart_body_Inr:
  assumes "removeItemFromCart_body s uid pid = (Inr cid, w)"
  shows "\<exists>i c. Cart_findOne_live s uid = Some cid
           \<and> findIndex (\<lambda>item. productId item = pid) (live_items s uid) = Some i
           \<and> userId c = uid \<and> \<not> isDeleted c
           \<and> items c = splice1 i (live_items s uid)
           \<and> stored_as s w uid cid c"
proof -
  from assms obtain cid0 where l: "Cart_findOne_live s uid = Some cid0"
    by (auto simp: removeItemFromCart_body_def split: option.splits)
  from assms l obtain i where i: "findIndex (\<lambda>item. productId item = pid) (items (Cart_coll s ! cid0)) = Some i"
    by (auto simp: removeItemFromCart_body_def Let_def split: option.splits)
  define c1 where "c1 = (Cart_coll s ! cid0)\<lparr>items := splice1 i (items (Cart_coll s ! cid0))\<rparr>"
  define c where "c = c1\<lparr>totalAmount := sum_totalPrice (items c1)\<rparr>"
  from assms l i have sv: "cart_save s (Cart_findOne_live s uid, c) = (Inr cid, w)"
    by (auto simp: removeItemFromCart_body_def Let_def c_def c1_def)
  have f: "userId c = uid" "\<not> isDeleted c" "items c = splice1 i (live_items s uid)"
    using live_cart_fields[OF l] l by (simp_all add: c_def c1_def live_items_def)
  from save_live_cart[OF sv f(1,2)] have st: "stored_as s w uid cid c" .
  from cart_save_Inr[OF sv] l have "cid = cid0" by simp
  with l i f st show ?thesis by (auto simp: live_items_def)
qed

lemma updateCartItemQuantity_body_Inl:
  "updateCartItemQuantity_body s uid pid qty = (Inl e, w) \<Longrightarrow> w = s"
  by (auto simp: updateCartItemQuantity_body_def Let_def
      split: option.splits if_splits dest: cart_save_Inl)

lemma updateCartItemQuantity_body_Inr:
  assumes "updateCartItemQuantity_body s uid pid qty = (Inr cid, w)"
  shows "\<exists>pr i c. Product_findOne_available s pid = Some pr \<and> qty \<le> stock pr
           \<and> Cart_findOne_live s uid = Some cid
           \<and> findIndex (\<lambda>item. productId item = pid) (live_items s uid) = Some i
           \<and> userId c = uid \<and> \<not> isDeleted c
           \<and> items c = (live_items s uid)[i := (live_items s uid ! i)\<lparr>quantity := qty,
                  price := p_price pr, totalPrice := p_price pr * qty\<rparr>]
           \<and> stored_as s w uid cid c"
proof -
  from assms obtain pr where pr: "Product_findOne_available s pid = Some pr" and st: "qty \<le> stock pr"
    by (auto simp: updateCartItemQuantity_body_def split: option.splits if_splits)
  from assms pr st obtain cid0 where l: "Cart_findOne_live s uid = Some cid0"
    by (auto simp: updateCartItemQuantity_body_def split: option.splits)
  from assms pr st l obtain i where i: "findIndex (\<lambda>item. productId item = pid) (items (Cart_coll s ! cid0)) = Some i"
    by (auto simp: updateCartItemQuantity_body_def Let_def split: option.splits)
  define its where "its = items (Cart_coll s ! cid0)"
  define c1 where "c1 = (Cart_coll s ! cid0)\<lparr>items := its[i := (its ! i)\<lparr>quantity := qty,
                  price := p_price pr, totalPrice := p_price pr * qty\<rparr>]\<rparr>"
  define c where "c = c1\<lparr>totalAmount := sum_totalPrice (items c1)\<rparr>"
  from assms pr st l i have sv: "cart_save s (Cart_findOne_live s uid, c) = (Inr cid, w)"
    by (auto simp: updateCartItemQuantity_body_def Let_def c_def c1_def its_def)
  have f: "userId c = uid" "\<not> isDeleted c"
    "items c = (live_items s uid)[i := (live_items s uid ! i)\<lparr>quantity := qty,
                  price := p_price pr, totalPrice := p_price pr * qty\<rparr>]"
    using live_cart_fields[OF l] l by (simp_all add: c_def c1_def its_def live_items_def)
  from save_live_cart[OF sv f(1,2)] have sa: "stored_as s w uid cid c" .
  from cart_save_Inr[OF sv] l have "cid = cid0" by simp
  with l i f sa pr st show ?thesis by (auto simp: live_items_def)
qed

lemma addItemToCart_Inr:
  assumes "addItemToCart s u p q a = (Inr v, w)"
  shows "\<exists>uid pid qty cid. u = Some uid \<and> p = Some pid \<and> q = Some qty \<and> 0 < qty \<and> a = u
           \<and> addItemToCart_body s uid pid qty = (Inr cid, w)
           \<and> v = Cart_findById_populated w cid"
  using assms
  by (auto simp: addItemToCart_def split: option.splits if_splits prod.splits sum.splits)

lemma updateCartItemQuantity_Inr:
  assumes "updateCartItemQuantity s u p q a = (Inr v, w)"
  shows "\<exists>uid pid qty cid. u = Some uid \<and> p = Some pid \<and> q = Some qty \<and> 0 < qty \<and> a = u
           \<and> updateCartItemQuantity_body s uid pid qty = (Inr cid, w)
           \<and> v = Cart_findById_populated w cid"
  using assms
  by (auto simp: updateCartItemQuantity_def split: option.splits if_splits prod.splits sum.splits)

lemma removeItemFromCart_Inr:
  assumes "removeItemFromCart s u p a = (Inr v, w)"
  shows "\<exists>uid pid cid. u = Some uid \<and> p = Some pid \<and> a = u
           \<and> removeItemFromCart_body s uid pid = (Inr cid, w)
           \<and> v = Cart_findById_populated w cid"
  using assms
  by (auto simp: removeItemFromCart_def split: option.splits if_splits prod.splits sum.splits)

lemma stored_as_consistent:
  assumes "stored_as s w uid cid c"
  shows "Cart_findOne_live w uid = Some cid" "cart_consistent w (Cart_coll w ! cid)"
    "list_all (line_ok w) (items (Cart_coll w ! cid))"
    "distinct (map productId (items (Cart_coll w ! cid)))"
proof -
  from assms have st: "Cart_coll w ! cid = saved s c" and pc: "Product_coll w = Product_coll s"
    and ok: "list_all (line_ok s) (items c)" and v: "cart_validate c"
    by (auto simp: stored_as_def)
  show "Cart_findOne_live w uid = Some cid" using assms by (simp add: stored_as_def)
  show "cart_consistent w (Cart_coll w ! cid)"
    unfolding st using ok pc by (rule saved_consistent)
  have "line_ok w = line_ok s" using pc by (auto simp: line_ok_def fun_eq_iff)
  then show "list_all (line_ok w) (items (Cart_coll w ! cid))"
    unfolding st using saved_line_ok[OF ok] by simp
  show "distinct (map productId (items (Cart_coll w ! cid)))"
    unfolding st using v by (simp add: cart_validate_def)
qed

lemma rethrow_plain: "\<not> has_status e \<Longrightarrow> rethrow msg e = BadRequestError msg"
  by (simp add: rethrow_def)



lemma cart_save_rejects:
  assumes bad: "\<not> list_all (line_ok s) (items (snd doc))"
  shows "\<exists>e. \<not> has_status e \<and> cart_save s doc = (Inl e, s)"
proof -
  obtain res w where sv: "cart_save s doc = (res, w)" by (cases "cart_save s doc")
  show ?thesis
  proof (cases res)
    case (Inl e)
    with sv cart_save_Inl[of s doc e w] show ?thesis by auto
  next
    case (Inr c)
    with sv cart_save_Inr[of s doc c w] bad show ?thesis by auto
  qed
qed

lemma mutation_stored:
  assumes h: "r = addItemToCart s u p q a \<or> r = updateCartItemQuantity s u p q a
         \<or> r = removeItemFromCart s u p a" and v: "fst r = Inr v"
  shows "\<exists>uid cid c. u = Some uid \<and> v = Cart_findById_populated (snd r) cid
           \<and> stored_as s (snd r) uid cid c"
proof -
  obtain w where r: "r = (Inr v, w)" using v by (cases r) auto
  from h consider (add) "addItemToCart s u p q a = (Inr v, w)"
    | (upd) "updateCartItemQuantity s u p q a = (Inr v, w)"
    | (rem) "removeItemFromCart s u p a = (Inr v, w)"
    using r by auto
  then have "\<exists>uid cid c. u = Some uid \<and> v = Cart_findById_populated w cid \<and> stored_as s w uid cid c"
  proof cases
    case add
    from addItemToCart_Inr[OF add] obtain uid pid qty cid where
      "u = Some uid" "v = Cart_findById_populated w cid"
      "addItemToCart_body s uid pid qty = (Inr cid, w)" by blast
    with addItemToCart_body_Inr[of s uid pid qty cid w] show ?thesis by blast
  next
    case upd
    from updateCartItemQuantity_Inr[OF upd] obtain uid pid qty cid where
      "u = Some uid" "v = Cart_findById_populated w cid"
      "updateCartItemQuantity_body s uid pid qty = (Inr cid, w)" by blast
    with updateCartItemQuantity_body_Inr[of s uid pid qty cid w] show ?thesis by blast
  next
    case rem
    from removeItemFromCart_Inr[OF rem] obtain uid pid cid where
      "u = Some uid" "v = Cart_findById_populated w cid"
      "removeItemFromCart_body s uid pid = (Inr cid, w)" by blast
    with removeItemFromCart_body_Inr[of s uid pid cid w] show ?thesis by blast
  qed
  with r show ?thesis by simp
qed



lemma merge_item_None:
  "findIndex (\<lambda>item. productId item = pid) its = None \<Longrightarrow>
     merge_item pr pid qty its =
       its @ [\<lparr>productId = pid, price = p_price pr, quantity = qty, totalPrice = p_price pr * qty\<rparr>]"
  by (simp add: merge_item_def)

lemma merge_item_Some:
  "findIndex (\<lambda>item. productId item = pid) its = Some i \<Longrightarrow>
     merge_item pr pid qty its =
       its[i := (its ! i)\<lparr>quantity := quantity (its ! i) + qty, price := p_price pr,
                          totalPrice := p_price pr * (quantity (its ! i) + qty)\<rparr>]"
  by (simp add: merge_item_def Let_def)

lemma filter_update_distinct:
  assumes "distinct (map f (xs[i := x]))" and "i < length xs" and "f x = k"
  shows "filter (\<lambda>y. f y = k) (xs[i := x]) = [x]"
proof -
  have eq: "xs[i := x] = take i xs @ x # drop (Suc i) xs"
    using assms(2) by (rule upd_conv_take_nth_drop)
  from assms(1) have d: "distinct (map f (take i xs) @ f x # map f (drop (Suc i) xs))"
    by (simp add: eq)
  then have "f x \<notin> f ` set (take i xs)" "f x \<notin> f ` set (drop (Suc i) xs)"
    by auto
  then have "\<forall>y\<in>set (take i xs). f y \<noteq> k" "\<forall>y\<in>set (drop (Suc i) xs). f y \<noteq> k"
    using assms(3) by (metis imageI)+
  then have "filter (\<lambda>y. f y = k) (take i xs) = []" "filter (\<lambda>y. f y = k) (drop (Suc i) xs) = []"
    by (auto simp: filter_empty_conv)
  with assms(3) show ?thesis by (simp add: eq)
qed

lemma filter_singleton_findIndex:
  "filter P xs = [x] \<Longrightarrow> \<exists>i. findIndex P xs = Some i \<and> xs ! i = x"
proof (induction xs)
  case Nil
  then show ?case by simp
next
  case (Cons y ys)
  show ?case
  proof (cases "P y")
    case True
    with Cons.prems show ?thesis by simp
  next
    case False
    with Cons.prems have "filter P ys = [x]" by simp
    from Cons.IH[OF this] False show ?thesis by auto
  qed
qed

lemma reprice_fields [simp]:
  "productId (reprice s item) = productId item" "quantity (reprice s item) = quantity item"
  by (auto simp: reprice_def split: option.splits)

lemma filter_reprice:
  "filter (\<lambda>item. productId item = pid) (map (reprice s) its) =
     map (reprice s) (filter (\<lambda>item. productId item = pid) its)"
  by (induction its) auto

lemma merged_line:
  assumes d: "distinct (map productId (merge_item pr pid qty its))"
  shows "filter (\<lambda>item. productId item = pid) (merge_item pr pid qty its) =
           [\<lparr>productId = pid, price = p_price pr,
             quantity = (case findIndex (\<lambda>item. productId item = pid) its of
                           None \<Rightarrow> 0 | Some i \<Rightarrow> quantity (its ! i)) + qty,
             totalPrice = p_price pr *
               ((case findIndex (\<lambda>item. productId item = pid) its of
                           None \<Rightarrow> 0 | Some i \<Rightarrow> quantity (its ! i)) + qty)\<rparr>]"
proof (cases "findIndex (\<lambda>item. productId item = pid) its")
  case None
  then have "filter (\<lambda>item. productId item = pid) its = []"
    by (auto simp: findIndex_None filter_empty_conv)
  with None show ?thesis by (simp add: merge_item_None)
next
  case (Some i)
  from findIndex_Some[OF Some] have i: "i < length its" and p: "productId (its ! i) = pid" by auto
  let ?x = "(its ! i)\<lparr>quantity := quantity (its ! i) + qty, price := p_price pr,
                          totalPrice := p_price pr * (quantity (its ! i) + qty)\<rparr>"
  have m: "merge_item pr pid qty its = its[i := ?x]" using Some by (rule merge_item_Some)
  have "filter (\<lambda>y. productId y = pid) (its[i := ?x]) = [?x]"
    using d i p unfolding m by (intro filter_update_distinct) auto
  moreover have "?x = \<lparr>productId = pid, price = p_price pr, quantity = quantity (its ! i) + qty,
             totalPrice = p_price pr * (quantity (its ! i) + qty)\<rparr>"
    using p by simp
  ultimately show ?thesis using Some m by simp
qed

lemma add_merges:
  assumes b: "addItemToCart_body s uid pid qty = (Inr cid, w)"
  shows "\<exists>pr. Product_coll s pid = Some pr \<and> Cart_findOne_live w uid = Some cid
           \<and> filter (\<lambda>item. productId item = pid) (live_items w uid) =
               [\<lparr>productId = pid, price = p_price pr, quantity = in_cart s uid pid + qty,
                 totalPrice = p_price pr * (in_cart s uid pid + qty)\<rparr>]
           \<and> distinct (map productId (live_items w uid))
           \<and> in_cart w uid pid = in_cart s uid pid + qty"
proof -
  from addItemToCart_body_Inr[OF b] obtain pr c where
    pr: "Product_findOne_available s pid = Some pr"
    and it: "items c = merge_item pr pid qty (live_items s uid)"
    and st: "stored_as s w uid cid c" by blast
  from pr have coll: "Product_coll s pid = Some pr" by (simp add: available_iff)
  from st have l: "Cart_findOne_live w uid = Some cid"
    and sv: "Cart_coll w ! cid = saved s c" and v: "cart_validate c"
    by (auto simp: stored_as_def)
  from v it have d: "distinct (map productId (merge_item pr pid qty (live_items s uid)))"
    by (simp add: cart_validate_def)
  have li: "live_items w uid = map (reprice s) (merge_item pr pid qty (live_items s uid))"
    using l sv it by (simp add: live_items_def saved_def)
  let ?m = "\<lparr>productId = pid, price = p_price pr, quantity = in_cart s uid pid + qty,
                 totalPrice = p_price pr * (in_cart s uid pid + qty)\<rparr>"
  have f: "filter (\<lambda>item. productId item = pid) (live_items w uid) = [reprice s ?m]"
    unfolding li filter_reprice merged_line[OF d] by (simp add: in_cart_def)
  have r: "reprice s ?m = ?m" using coll by (simp add: reprice_def)
  have dw: "distinct (map productId (live_items w uid))"
    unfolding li using d by (simp add: comp_def)
  from filter_singleton_findIndex[OF f[unfolded r]] have "in_cart w uid pid = in_cart s uid pid + qty"
    by (auto simp: in_cart_def)
  with coll l f r dw show ?thesis by auto
qed

lemma failure_keeps_state:
  "fst (addItemToCart s u p q a) = Inl e \<Longrightarrow> snd (addItemToCart s u p q a) = s"
  "fst (updateCartItemQuantity s u p q a) = Inl e \<Longrightarrow> snd (updateCartItemQuantity s u p q a) = s"
  "fst (removeItemFromCart s u p a) = Inl e \<Longrightarrow> snd (removeItemFromCart s u p a) = s"
  "fst (clearCart s u a) = Inl e \<Longrightarrow> snd (clearCart s u a) = s"
  by (auto simp: addItemToCart_def updateCartItemQuantity_def removeItemFromCart_def
      clearCart_def abortTransaction_def
      split: option.splits if_splits prod.splits sum.splits)

lemma stored_as_no_duplicates:
  assumes st: "stored_as s w uid cid c" and inv: "no_duplicate_lines s"
  shows "no_duplicate_lines w"
proof -
  have "distinct (map productId (items (Cart_coll w ! j)))" if j: "j < length (Cart_coll w)" for j
  proof (cases "j = cid")
    case True
    with stored_as_consistent(4)[OF st] show ?thesis by simp
  next
    case False
    with st j have "j < length (Cart_coll s)" "Cart_coll w ! j = Cart_coll s ! j"
      by (auto simp: stored_as_def)
    with inv show ?thesis by (simp add: no_duplicate_lines_def list_all_length)
  qed
  then show ?thesis by (simp add: no_duplicate_lines_def list_all_length)
qed

lemma mutation_no_duplicates:
  assumes h: "r = addItemToCart s u p q a \<or> r = updateCartItemQuantity s u p q a
         \<or> r = removeItemFromCart s u p a" and inv: "no_duplicate_lines s"
  shows "no_duplicate_lines (snd r)"
proof (cases "fst r")
  case (Inl e)
  with h failure_keeps_state(1,2)[of s u p q a e] failure_keeps_state(3)[of s u p a e]
  have "snd r = s" by auto
  with inv show ?thesis by simp
next
  case (Inr v)
  from mutation_stored[OF h Inr] obtain uid cid c where "stored_as s (snd r) uid cid c" by blast
  from stored_as_no_duplicates[OF this inv] show ?thesis .
qed

lemma clearCart_no_duplicates:
  assumes inv: "no_duplicate_lines s"
  shows "no_duplicate_lines (snd (clearCart s u a))"
proof (cases "fst (clearCart s u a)")
  case (Inl e)
  with failure_keeps_state(4)[of s u a e] inv show ?thesis by simp
next
  case (Inr m)
  then obtain uid cid w where u: "u = Some uid" and b: "clearCart_body s uid = (Inr cid, w)"
    and w: "snd (clearCart s u a) = w"
    by (auto simp: clearCart_def split: option.splits if_splits prod.splits sum.splits)
  from b obtain cid0 where l: "Cart_findOne_live s uid = Some cid0"
    by (auto simp: clearCart_body_def split: option.splits)
  let ?c = "(Cart_coll s ! cid0)\<lparr>isDeleted := True, items := [], totalAmount := 0\<rparr>"
  from b l have sv: "cart_save s (Some cid0, ?c) = (Inr cid, w)"
    by (simp add: clearCart_body_def Let_def)
  from cart_save_Inr[OF sv] have we: "w = s\<lparr>Cart_coll := (Cart_coll s)[cid0 := saved s ?c]\<rparr>"
    by simp
  have "distinct (map productId (items (saved s ?c)))" by (simp add: saved_def)
  with inv have "no_duplicate_lines w"
    unfolding we no_duplicate_lines_def list_all_iff
    by (auto dest!: subsetD[OF set_update_subset_insert])
  with w show ?thesis by simp
qed

lemma live_items_catalog [simp]: "live_items (s\<lparr>Product_coll := pc\<rparr>) uid = live_items s uid"
  by (simp add: live_items_def Cart_findOne_live_def split: option.splits)

lemma in_cart_catalog [simp]: "in_cart (s\<lparr>Product_coll := pc\<rparr>) uid pid = in_cart s uid pid"
  by (simp add: in_cart_def split: option.splits)

lemma cart_or_new_items [simp]: "items (cart_or_new s uid) = live_items s uid"
  by (simp add: cart_or_new_def live_items_def split: option.splits)

lemma addItemToCart_body_save:
  assumes "Product_findOne_available s pid = Some pr" and "qty \<le> stock pr"
  shows "addItemToCart_body s uid pid qty =
           cart_save s (Cart_findOne_live s uid,
             (cart_or_new s uid)\<lparr>items := merge_item pr pid qty (live_items s uid),
                totalAmount := sum_totalPrice (merge_item pr pid qty (live_items s uid))\<rparr>)"
  using assms
  by (auto simp: addItemToCart_body_def cart_addItem_def Let_def cart_or_new_def live_items_def
      split: option.splits)

lemma addItemToCart_owner:
  assumes "0 < qty"
  shows "addItemToCart s (Some uid) (Some pid) (Some qty) (Some uid) =
           (case addItemToCart_body s uid pid qty of
              (Inl e, working) \<Rightarrow> (Inl (rethrow ''Failed to add item to cart'' e), s)
            | (Inr cid, working) \<Rightarrow> (Inr (Cart_findById_populated working cid), working))"
  using assms by (simp add: addItemToCart_def abortTransaction_def split: prod.splits sum.splits)

lemma merged_line_not_ok:
  assumes pr: "Product_findOne_available s pid = Some pr"
    and over: "stock pr < in_cart s uid pid + qty" and q: "qty \<le> stock pr"
  shows "\<not> list_all (line_ok s) (merge_item pr pid qty (live_items s uid))"
proof -
  let ?its = "live_items s uid"
  from over q obtain i where f: "findIndex (\<lambda>item. productId item = pid) ?its = Some i"
    by (auto simp: in_cart_def split: option.splits)
  from findIndex_Some[OF f] have i: "i < length ?its" and p: "productId (?its ! i) = pid" by auto
  let ?x = "(?its ! i)\<lparr>quantity := quantity (?its ! i) + qty, price := p_price pr,
                          totalPrice := p_price pr * (quantity (?its ! i) + qty)\<rparr>"
  have m: "merge_item pr pid qty ?its = ?its[i := ?x]" using f by (rule merge_item_Some)
  have "?x \<in> set (?its[i := ?x])" using i by (simp add: set_update_memI)
  moreover have "\<not> line_ok s ?x"
    using pr over f p by (auto simp: line_ok_def in_cart_def available_iff)
  ultimately show ?thesis unfolding m by (auto simp: list_all_iff)
qed

lemma sum_totalPrice_nonneg:
  "list_all (\<lambda>item. 0 \<le> totalPrice item) its \<Longrightarrow> 0 \<le> sum_totalPrice its"
  by (auto simp: sum_totalPrice_eq list_all_iff intro!: sum_list_nonneg)

lemma merged_ok:
  assumes pr: "Product_findOne_available s pid = Some pr" and q: "0 < qty"
    and within: "in_cart s uid pid + qty \<le> stock pr" and price: "0 \<le> p_price pr"
    and valid: "lines_valid (live_items s uid)"
    and others: "list_all (\<lambda>item. productId item = pid \<or> line_ok s item) (live_items s uid)"
  shows "lines_valid (merge_item pr pid qty (live_items s uid))
         \<and> list_all (line_ok s) (merge_item pr pid qty (live_items s uid))"
proof (cases "findIndex (\<lambda>item. productId item = pid) (live_items s uid)")
  case None
  let ?its = "live_items s uid"
  let ?new = "\<lparr>productId = pid, price = p_price pr, quantity = qty, totalPrice = p_price pr * qty\<rparr>"
  have m: "merge_item pr pid qty ?its = ?its @ [?new]" using None by (rule merge_item_None)
  from None have np: "\<forall>item\<in>set ?its. productId item \<noteq> pid" by (simp add: findIndex_None)
  from None within have qs: "qty \<le> stock pr" by (simp add: in_cart_def)
  have "line_ok s ?new" using pr qs by (auto simp: line_ok_def available_iff)
  moreover have "list_all (line_ok s) ?its" using others np by (auto simp: list_all_iff)
  moreover have "lines_valid (?its @ [?new])"
    using valid np q price by (auto simp: lines_valid_def)
  ultimately show ?thesis unfolding m by simp
next
  case (Some i)
  let ?its = "live_items s uid"
  from findIndex_Some[OF Some] have i: "i < length ?its" and p: "productId (?its ! i) = pid" by auto
  let ?x = "(?its ! i)\<lparr>quantity := quantity (?its ! i) + qty, price := p_price pr,
                          totalPrice := p_price pr * (quantity (?its ! i) + qty)\<rparr>"
  have m: "merge_item pr pid qty ?its = ?its[i := ?x]" using Some by (rule merge_item_Some)
  from valid i have qi: "1 \<le> quantity (?its ! i)" and d: "distinct (map productId ?its)"
    by (auto simp: lines_valid_def list_all_length)
  have ids: "map productId (?its[i := ?x]) = map productId ?its"
    using p i by (simp add: map_update list_update_same_conv)
  have xv: "0 \<le> price ?x \<and> 1 \<le> quantity ?x \<and> 0 \<le> totalPrice ?x"
    using qi q price by simp
  have xok: "line_ok s ?x"
    using pr within Some p by (auto simp: line_ok_def in_cart_def available_iff)
  have v: "lines_valid (?its[i := ?x])"
    using valid xv ids unfolding lines_valid_def list_all_iff
    by (auto dest!: subsetD[OF set_update_subset_insert])
  have "line_ok s ((?its[i := ?x]) ! j)" if j: "j < length ?its" for j
  proof (cases "j = i")
    case True
    with xok i show ?thesis by simp
  next
    case False
    with d i j have "productId (?its ! j) \<noteq> productId (?its ! i)"
      by (metis length_map nth_eq_iff_index_eq nth_map)
    with others j p False show ?thesis by (auto simp: list_all_length)
  qed
  then have "list_all (line_ok s) (?its[i := ?x])" by (simp add: list_all_length)
  with v show ?thesis unfolding m by simp
qed

section \<open>Lemmas about orders and payments\<close>

lemma findOneAndUpdate_found:
  assumes f: "findIndex (\<lambda>d. razorpayOrderId d = Some rid) (Order_coll s) = Some i"
  shows "Order_findOneAndUpdate s rid upd =
           (Some (i, upd (Order_coll s ! i)), s\<lparr>Order_coll := (Order_coll s)[i := upd (Order_coll s ! i)]\<rparr>)"
  using f by (simp add: Order_findOneAndUpdate_def Let_def)

lemma sum_lines_eq: "sum_lines ls = sum_list (map (\<lambda>l. ol_price l * ol_quantity l) ls)"
proof -
  have "foldl (\<lambda>sum item. sum + ol_price item * ol_quantity item) a ls =
          a + sum_list (map (\<lambda>l. ol_price l * ol_quantity l) ls)" for a
    by (induction ls arbitrary: a) auto
  then show ?thesis by (simp add: sum_lines_def)
qed

lemma order_pre_save_Inr:
  "order_pre_save doc = Inr this \<Longrightarrow> this = doc\<lparr>o_totalAmount := sum_lines (products doc)\<rparr>"
  by (auto simp: order_pre_save_def Let_def split: if_splits)


lemma order_save_new_Inr:
  "order_save_new s doc = (Inr oid, w) \<Longrightarrow>
     oid = length (Order_coll s)
     \<and> w = s\<lparr>Order_coll := Order_coll s @ [doc\<lparr>o_totalAmount := sum_lines (products doc)\<rparr>]\<rparr>"
  by (auto simp: order_save_new_def split: if_splits sum.splits dest: order_pre_save_Inr)


lemma populate_amounts [simp]: "order_amounts (i, populate_order s ord) = order_amounts (i, ord)"
  by (simp add: order_amounts_def populate_order_def populate_line_def comp_def)

lemma getOrderDetails_Inr:
  assumes "getOrderDetails s u oidArg = Inr r"
  shows "oidArg = Some (fst r) \<and> fst r < length (Order_coll s)
         \<and> u = Some (o_userId (Order_coll s ! fst r)) \<and> \<not> o_isDeleted (Order_coll s ! fst r)
         \<and> snd r = populate_order s (Order_coll s ! fst r)"
  using assms by (auto simp: getOrderDetails_def split: option.splits if_splits)

lemma getUserOrders_Inr:
  assumes "getUserOrders s u page limit = Inr rs"
  shows "list_all (\<lambda>r. fst r < length (Order_coll s)
                     \<and> order_amounts r = order_amounts (fst r, Order_coll s ! fst r)) rs"
proof -
  from assms obtain uid where u: "u = Some uid"
    by (cases u) (simp_all add: getUserOrders_def)
  let ?z = "zip [0 ..< length (Order_coll s)] (Order_coll s)"
  let ?m = "filter (\<lambda>d. o_userId (snd d) = uid \<and> \<not> o_isDeleted (snd d)) ?z"
  let ?page = "take limit (drop ((page - 1) * limit) ?m)"
  have "set ?page \<subseteq> set (drop ((page - 1) * limit) ?m)" by (rule set_take_subset)
  also have "\<dots> \<subseteq> set ?m" by (rule set_drop_subset)
  also have "\<dots> \<subseteq> set ?z" by (rule filter_is_subset)
  finally have sub: "set ?page \<subseteq> set ?z" .
  have z: "fst d < length (Order_coll s) \<and> snd d = Order_coll s ! fst d" if "d \<in> set ?z" for d
  proof -
    from that obtain i where "i < length ?z" "d = ?z ! i" by (auto simp: in_set_conv_nth)
    then show ?thesis by simp
  qed
  from assms u have rs: "rs = map (\<lambda>d. (fst d, populate_order s (snd d))) ?page"
    by (simp add: getUserOrders_def Let_def)
  have "fst r < length (Order_coll s) \<and> order_amounts r = order_amounts (fst r, Order_coll s ! fst r)"
    if "r \<in> set rs" for r
  proof -
    from that rs obtain d where d: "d \<in> set ?page" "r = (fst d, populate_order s (snd d))"
      by auto
    from d(1) sub z have "fst d < length (Order_coll s)" "snd d = Order_coll s ! fst d" by blast+
    with d(2) show ?thesis by (simp add: populate_amounts)
  qed
  then show ?thesis by (simp add: list_all_iff)
qed

section \<open>The claims\<close>

text \<open>
  C1. The total of an order is fixed when the order is saved, and fetching the order
  reproduces it whatever the catalog has become. When the save of a new order succeeds,
  the total stored is the sum over the order's lines of the line's own unit price times
  its quantity, and the lines are stored as given; fetched by its owner under any later
  catalog, the order reports that total and those unit prices. For every state, what
  \<^verbatim>\<open>getOrderDetails\<close> and \<^verbatim>\<open>getUserOrders\<close> return of an order's amounts is what is stored
  under the order's id, and it does not depend on the catalog: populating replaces the
  references of a line, never its price nor the order's total.
\<close>

theorem order_total_frozen:
  "(order_save_new s doc = (Inr oid, w) \<longrightarrow>
      oid < length (Order_coll w)
      \<and> products (Order_coll w ! oid) = products doc
      \<and> o_totalAmount (Order_coll w ! oid) =
          sum_list (map (\<lambda>l. ol_price l * ol_quantity l) (products doc))
      \<and> (\<not> o_isDeleted doc \<longrightarrow>
          map_sum id order_amounts
            (getOrderDetails (w\<lparr>Product_coll := pc\<rparr>) (Some (o_userId doc)) (Some oid)) =
          Inr (oid, sum_list (map (\<lambda>l. ol_price l * ol_quantity l) (products doc)),
               map ol_price (products doc))))
   \<and> (getOrderDetails s u oidArg = Inr r \<longrightarrow>
        oidArg = Some (fst r) \<and> fst r < length (Order_coll s)
        \<and> order_amounts r = order_amounts (fst r, Order_coll s ! fst r))
   \<and> (getUserOrders s u page limit = Inr rs \<longrightarrow>
        list_all (\<lambda>r. fst r < length (Order_coll s)
                      \<and> order_amounts r = order_amounts (fst r, Order_coll s ! fst r)) rs)
   \<and> map_sum id order_amounts (getOrderDetails (s\<lparr>Product_coll := pc\<rparr>) u oidArg) =
       map_sum id order_amounts (getOrderDetails s u oidArg)
   \<and> map_sum id (map order_amounts) (getUserOrders (s\<lparr>Product_coll := pc\<rparr>) u page limit) =
       map_sum id (map order_amounts) (getUserOrders s u page limit)"
proof -
  have 1: "oid < length (Order_coll w)
      \<and> products (Order_coll w ! oid) = products doc
      \<and> o_totalAmount (Order_coll w ! oid) =
          sum_list (map (\<lambda>l. ol_price l * ol_quantity l) (products doc))
      \<and> (\<not> o_isDeleted doc \<longrightarrow>
          map_sum id order_amounts
            (getOrderDetails (w\<lparr>Product_coll := pc\<rparr>) (Some (o_userId doc)) (Some oid)) =
          Inr (oid, sum_list (map (\<lambda>l. ol_price l * ol_quantity l) (products doc)),
               map ol_price (products doc)))"
    if sv: "order_save_new s doc = (Inr oid, w)"
  proof -
    from order_save_new_Inr[OF sv] have o: "oid = length (Order_coll s)"
      and w: "w = s\<lparr>Order_coll := Order_coll s @ [doc\<lparr>o_totalAmount := sum_lines (products doc)\<rparr>]\<rparr>"
      by auto
    show ?thesis
      unfolding o w
      by (simp add: sum_lines_eq getOrderDetails_def order_amounts_def populate_order_def
          populate_line_def comp_def)
  qed
  have 2: "oidArg = Some (fst r) \<and> fst r < length (Order_coll s)
        \<and> order_amounts r = order_amounts (fst r, Order_coll s ! fst r)"
    if g: "getOrderDetails s u oidArg = Inr r"
  proof -
    from getOrderDetails_Inr[OF g] have "r = (fst r, populate_order s (Order_coll s ! fst r))"
      by (metis prod.collapse)
    then have "order_amounts r = order_amounts (fst r, Order_coll s ! fst r)"
      by (metis populate_amounts)
    with getOrderDetails_Inr[OF g] show ?thesis by simp
  qed
  have 3: "list_all (\<lambda>r. fst r < length (Order_coll s)
                      \<and> order_amounts r = order_amounts (fst r, Order_coll s ! fst r)) rs"
    if "getUserOrders s u page limit = Inr rs"
    using that by (rule getUserOrders_Inr)
  have 4: "map_sum id order_amounts (getOrderDetails (s\<lparr>Product_coll := pc\<rparr>) u oidArg) =
       map_sum id order_amounts (getOrderDetails s u oidArg)"
    by (simp add: getOrderDetails_def split: option.splits)
  have 5: "map_sum id (map order_amounts) (getUserOrders (s\<lparr>Product_coll := pc\<rparr>) u page limit) =
       map_sum id (map order_amounts) (getUserOrders s u page limit)"
    by (simp add: getUserOrders_def Let_def comp_def split: option.splits)
  have i1: "order_save_new s doc = (Inr oid, w) \<longrightarrow>
      oid < length (Order_coll w)
      \<and> products (Order_coll w ! oid) = products doc
      \<and> o_totalAmount (Order_coll w ! oid) =
          sum_list (map (\<lambda>l. ol_price l * ol_quantity l) (products doc))
      \<and> (\<not> o_isDeleted doc \<longrightarrow>
          map_sum id order_amounts
            (getOrderDetails (w\<lparr>Product_coll := pc\<rparr>) (Some (o_userId doc)) (Some oid)) =
          Inr (oid, sum_list (map (\<lambda>l. ol_price l * ol_quantity l) (products doc)),
               map ol_price (products doc)))"
    by (rule impI) (erule 1)
  have i2: "getOrderDetails s u oidArg = Inr r \<longrightarrow>
        oidArg = Some (fst r) \<and> fst r < length (Order_coll s)
        \<and> order_amounts r = order_amounts (fst r, Order_coll s ! fst r)"
    by (rule impI) (erule 2)
  have i3: "getUserOrders s u page limit = Inr rs \<longrightarrow>
        list_all (\<lambda>r. fst r < length (Order_coll s)
                      \<and> order_amounts r = order_amounts (fst r, Order_coll s ! fst r)) rs"
    by (rule impI) (erule 3)
  from i1 i2 i3 4 5 show ?thesis by (intro conjI)
qed

theorem order_total_frozen_witness:
  "fst (order_save_new shop0 new_order1) = Inr 0
   \<and> Order_coll (snd (order_save_new shop0 new_order1)) = [order1]
   \<and> o_totalAmount order1 = 200
   \<and> getOrderDetails ((snd (order_save_new shop0 new_order1))\<lparr>Product_coll := catalog2\<rparr>)
        (Some 10) (Some 0) =
       Inr (0, \<lparr>o_userId = 10,
                products = [\<lparr>ol_productId = Some (1, 120), ol_quantity = 2, ol_price = 100,
                             ol_sellerId = Some 7\<rparr>],
                shippingAddress = full_address, billingAddress = full_address,
                paymentMethod = ''cod'', razorpayOrderId = None, o_totalAmount = 200,
                paymentStatus = ''pending'', status = ''pending'', o_isDeleted = False\<rparr>)
   \<and> map_sum id order_amounts
        (getOrderDetails ((snd (order_save_new shop0 new_order1))\<lparr>Product_coll := catalog2\<rparr>)
           (Some 10) (Some 0)) = Inr (0, 200, [100])
   \<and> map_sum id (map order_amounts)
        (getUserOrders ((snd (order_save_new shop0 new_order1))\<lparr>Product_coll := catalog2\<rparr>)
           (Some 10) 1 10) = Inr [(0, 200, [100])]"
proof -
  let ?c = "order_save_new shop0 new_order1"
  have e: "fst ?c = Inr 0" by code_simp
  then have c: "?c = (Inr 0, snd ?c)" by (metis prod.collapse)
  have st: "Order_coll (snd ?c) = [order1]" by code_simp
  have t: "o_totalAmount order1 = 200" by code_simp
  have d1: "\<not> o_isDeleted new_order1" by code_simp
  have d2: "o_userId new_order1 = 10" by code_simp
  have d3: "sum_list (map (\<lambda>l. ol_price l * ol_quantity l) (products new_order1)) = 200"
    by code_simp
  have d4: "map ol_price (products new_order1) = [100]" by code_simp
  have g: "getOrderDetails ((snd ?c)\<lparr>Product_coll := catalog2\<rparr>) (Some 10) (Some 0) =
       Inr (0, \<lparr>o_userId = 10,
                products = [\<lparr>ol_productId = Some (1, 120), ol_quantity = 2, ol_price = 100,
                             ol_sellerId = Some 7\<rparr>],
                shippingAddress = full_address, billingAddress = full_address,
                paymentMethod = ''cod'', razorpayOrderId = None, o_totalAmount = 200,
                paymentStatus = ''pending'', status = ''pending'', o_isDeleted = False\<rparr>)"
    by code_simp
  have u: "map_sum id (map order_amounts) (getUserOrders (snd ?c) (Some 10) 1 10) = Inr [(0, 200, [100])]"
    by code_simp
  have "order_save_new shop0 new_order1 = (Inr 0, snd ?c) \<longrightarrow>
      0 < length (Order_coll (snd ?c))
      \<and> products (Order_coll (snd ?c) ! 0) = products new_order1
      \<and> o_totalAmount (Order_coll (snd ?c) ! 0) =
          sum_list (map (\<lambda>l. ol_price l * ol_quantity l) (products new_order1))
      \<and> (\<not> o_isDeleted new_order1 \<longrightarrow>
          map_sum id order_amounts
            (getOrderDetails ((snd ?c)\<lparr>Product_coll := catalog2\<rparr>) (Some (o_userId new_order1)) (Some 0)) =
          Inr (0, sum_list (map (\<lambda>l. ol_price l * ol_quantity l) (products new_order1)),
               map ol_price (products new_order1)))"
    using order_total_frozen[of shop0 new_order1 0 "snd ?c" catalog2] by (rule conjunct1)
  from this c have "\<not> o_isDeleted new_order1 \<longrightarrow>
          map_sum id order_amounts
            (getOrderDetails ((snd ?c)\<lparr>Product_coll := catalog2\<rparr>) (Some (o_userId new_order1)) (Some 0)) =
          Inr (0, sum_list (map (\<lambda>l. ol_price l * ol_quantity l) (products new_order1)),
               map ol_price (products new_order1))"
    by blast
  with d1 have "map_sum id order_amounts
            (getOrderDetails ((snd ?c)\<lparr>Product_coll := catalog2\<rparr>) (Some (o_userId new_order1)) (Some 0)) =
          Inr (0, sum_list (map (\<lambda>l. ol_price l * ol_quantity l) (products new_order1)),
               map ol_price (products new_order1))"
    by blast
  then have a: "map_sum id order_amounts
        (getOrderDetails ((snd ?c)\<lparr>Product_coll := catalog2\<rparr>) (Some 10) (Some 0)) =
        Inr (0, 200, [100])"
    unfolding d2 d3 d4 .
  from order_total_frozen[of "snd ?c" _ _ _ catalog2 "Some 10" _ _ 1 10] u
  have b: "map_sum id (map order_amounts)
        (getUserOrders ((snd ?c)\<lparr>Product_coll := catalog2\<rparr>) (Some 10) 1 10) = Inr [(0, 200, [100])]"
    by simp
  from e st t g a b show ?thesis by (intro conjI)
qed

text \<open>
  C2. After every successful cart mutation (\<^verbatim>\<open>addItemToCart\<close>, \<^verbatim>\<open>updateCartItemQuantity\<close>,
  \<^verbatim>\<open>removeItemFromCart\<close>) the stored cart of the user is consistent: each line's total price
  is its price times its quantity, each line's price is the catalog's price of its product
  in the state the operation leaves, and the cart's total amount is the sum of the lines'
  total prices. The document returned is that stored cart, populated.
\<close>

theorem cart_mutation_leaves_consistent_cart:
  assumes "r = addItemToCart s u p q a \<or> r = updateCartItemQuantity s u p q a
           \<or> r = removeItemFromCart s u p a"
    and "fst r = Inr v"
  shows "\<exists>uid cid. u = Some uid \<and> Cart_findOne_live (snd r) uid = Some cid
           \<and> v = Cart_findById_populated (snd r) cid
           \<and> cart_consistent (snd r) (Cart_coll (snd r) ! cid)"
proof -
  from mutation_stored[OF assms] obtain uid cid c where "u = Some uid"
    "v = Cart_findById_populated (snd r) cid" "stored_as s (snd r) uid cid c" by blast
  with stored_as_consistent(1,2)[of s "snd r" uid cid c] show ?thesis by auto
qed

theorem cart_mutation_leaves_consistent_cart_witness:
  "fst (addItemToCart shop2 (Some 10) (Some 2) (Some 2) (Some 10)) =
     Inr (Some (0, \<lparr>userId = 10,
        items = [\<lparr>productId = Some (1, 100), price = 100, quantity = 3, totalPrice = 300\<rparr>,
                 \<lparr>productId = Some (2, 30), price = 30, quantity = 3, totalPrice = 90\<rparr>],
        totalAmount = 390, isDeleted = False\<rparr>))
   \<and> cart_consistent (snd (addItemToCart shop2 (Some 10) (Some 2) (Some 2) (Some 10)))
        (Cart_coll (snd (addItemToCart shop2 (Some 10) (Some 2) (Some 2) (Some 10))) ! 0)
   \<and> Cart_coll (snd (removeItemFromCart shop2 (Some 10) (Some 2) (Some 10))) =
        [\<lparr>userId = 10,
          items = [\<lparr>productId = 1, price = 100, quantity = 3, totalPrice = 300\<rparr>],
          totalAmount = 300, isDeleted = False\<rparr>]
   \<and> cart_consistent (snd (removeItemFromCart shop2 (Some 10) (Some 2) (Some 10)))
        (Cart_coll (snd (removeItemFromCart shop2 (Some 10) (Some 2) (Some 10))) ! 0)"
proof -
  let ?a = "addItemToCart shop2 (Some 10) (Some 2) (Some 2) (Some 10)"
  let ?r = "removeItemFromCart shop2 (Some 10) (Some 2) (Some 10)"
  have ea: "fst ?a = Inr (Some (0, \<lparr>userId = 10,
        items = [\<lparr>productId = Some (1, 100), price = 100, quantity = 3, totalPrice = 300\<rparr>,
                 \<lparr>productId = Some (2, 30), price = 30, quantity = 3, totalPrice = 90\<rparr>],
        totalAmount = 390, isDeleted = False\<rparr>))"
    by code_simp
  have la: "Cart_findOne_live (snd ?a) 10 = Some 0" by code_simp
  have er: "fst ?r = Inr (Some (0, \<lparr>userId = 10,
        items = [\<lparr>productId = Some (1, 100), price = 100, quantity = 3, totalPrice = 300\<rparr>],
        totalAmount = 300, isDeleted = False\<rparr>))"
    by code_simp
  have lr: "Cart_findOne_live (snd ?r) 10 = Some 0" by code_simp
  have cr: "Cart_coll (snd ?r) = [\<lparr>userId = 10,
          items = [\<lparr>productId = 1, price = 100, quantity = 3, totalPrice = 300\<rparr>],
          totalAmount = 300, isDeleted = False\<rparr>]"
    by code_simp
  have "cart_consistent (snd ?a) (Cart_coll (snd ?a) ! 0)"
    using cart_mutation_leaves_consistent_cart[of ?a shop2 "Some 10" "Some 2" "Some 2" "Some 10", OF _ ea] la
    by auto
  moreover have "cart_consistent (snd ?r) (Cart_coll (snd ?r) ! 0)"
    using cart_mutation_leaves_consistent_cart[of ?r shop2 "Some 10" "Some 2" "Some 2" "Some 10", OF _ er] lr
    by auto
  ultimately show ?thesis using ea cr by simp
qed

text \<open>
  C3. The claim: \<^verbatim>\<open>addItemToCart\<close> fails with the insufficient-stock error exactly when the
  requested or the cumulative quantity exceeds the stock, and succeeds for an available
  product whenever the cumulative quantity is within stock. The second half is refuted in
  \<open>shop3\<close>: one of product 2 (stock 4, not in the cart) is within stock, and the call
  fails, because the save revalidates every line of the cart and one of the other lines is
  of a soft-deleted product.
\<close>

theorem addItem_stock_claim_counterexample:
  "Product_findOne_available shop3 2 =
     Some \<lparr>p_price = 30, stock = 4, isActive = True, p_isDeleted = False, seller = 7\<rparr>
   \<and> in_cart shop3 10 2 = 0
   \<and> fst (addItemToCart shop3 (Some 10) (Some 2) (Some 1) (Some 10)) =
       Inl (BadRequestError ''Failed to add item to cart'')"
  by code_simp

text \<open>
  C3, amended. For an available product and a positive quantity asked by the cart's owner:
  a requested quantity above the stock fails with the insufficient-stock \<open>BadRequestError\<close>
  and leaves the store unchanged; the call fails with that error only if the requested or
  the cumulative quantity exceeds the stock; a cumulative quantity above the stock fails
  and leaves the store unchanged; and the call succeeds when the product is not yet a line
  of the cart, the requested quantity is within stock, every line of the cart passes the
  revalidation of the save, and the product's price and the stored lines satisfy the
  schema validators.
\<close>

theorem addItem_stock_outcomes:
  assumes pr: "Product_findOne_available s pid = Some pr" and q: "0 < qty"
  shows "(stock pr < qty \<longrightarrow>
            addItemToCart s (Some uid) (Some pid) (Some qty) (Some uid) =
              (Inl (BadRequestError ''Insufficient stock for product''), s))
     \<and> (fst (addItemToCart s (Some uid) (Some pid) (Some qty) (Some uid)) =
            Inl (BadRequestError ''Insufficient stock for product'') \<longrightarrow>
          stock pr < qty \<or> stock pr < in_cart s uid pid + qty)
     \<and> (stock pr < in_cart s uid pid + qty \<longrightarrow>
          (\<exists>e. addItemToCart s (Some uid) (Some pid) (Some qty) (Some uid) = (Inl e, s)))
     \<and> (findIndex (\<lambda>item. productId item = pid) (live_items s uid) = None
          \<and> qty \<le> stock pr \<and> 0 \<le> p_price pr
          \<and> lines_valid (live_items s uid) \<and> list_all (line_ok s) (live_items s uid) \<longrightarrow>
          (\<exists>v w. addItemToCart s (Some uid) (Some pid) (Some qty) (Some uid) = (Inr v, w)))"
proof -
  let ?R = "addItemToCart s (Some uid) (Some pid) (Some qty) (Some uid)"
  let ?c = "(cart_or_new s uid)\<lparr>items := merge_item pr pid qty (live_items s uid),
                totalAmount := sum_totalPrice (merge_item pr pid qty (live_items s uid))\<rparr>"
  have over: "?R = (Inl (BadRequestError ''Insufficient stock for product''), s)" if "stock pr < qty"
    using that pr q by (simp add: addItemToCart_owner addItemToCart_body_def rethrow_def)
  have within: "fst ?R \<noteq> Inl (BadRequestError ''Insufficient stock for product'')" if w: "qty \<le> stock pr"
  proof -
    obtain res w' where sv: "cart_save s (Cart_findOne_live s uid, ?c) = (res, w')"
      by (cases "cart_save s (Cart_findOne_live s uid, ?c)")
    show ?thesis
    proof (cases res)
      case (Inl e)
      with sv cart_save_Inl[of s _ e w'] have "\<not> has_status e" by auto
      with Inl sv show ?thesis
        using q by (simp add: addItemToCart_owner addItemToCart_body_save[OF pr w] rethrow_plain)
    next
      case (Inr c)
      with sv show ?thesis
        using q by (simp add: addItemToCart_owner addItemToCart_body_save[OF pr w])
    qed
  qed
  have a: "stock pr < qty \<longrightarrow> ?R = (Inl (BadRequestError ''Insufficient stock for product''), s)"
    using over by blast
  have a': "fst ?R = Inl (BadRequestError ''Insufficient stock for product'') \<longrightarrow>
          stock pr < qty \<or> stock pr < in_cart s uid pid + qty"
    using within by (cases "stock pr < qty") auto
  have b: "stock pr < in_cart s uid pid + qty \<longrightarrow> (\<exists>e. ?R = (Inl e, s))"
  proof
    assume o: "stock pr < in_cart s uid pid + qty"
    show "\<exists>e. ?R = (Inl e, s)"
    proof (cases "stock pr < qty")
      case True
      with over show ?thesis by blast
    next
      case False
      then have w: "qty \<le> stock pr" by simp
      from merged_line_not_ok[OF pr o w]
      have "\<not> list_all (line_ok s) (items (snd (Cart_findOne_live s uid, ?c)))" by simp
      from cart_save_rejects[OF this] obtain e where "\<not> has_status e"
        "cart_save s (Cart_findOne_live s uid, ?c) = (Inl e, s)" by blast
      then have "?R = (Inl (BadRequestError ''Failed to add item to cart''), s)"
        using q by (simp add: addItemToCart_owner addItemToCart_body_save[OF pr w] rethrow_plain)
      then show ?thesis by blast
    qed
  qed
  have c: "findIndex (\<lambda>item. productId item = pid) (live_items s uid) = None
          \<and> qty \<le> stock pr \<and> 0 \<le> p_price pr
          \<and> lines_valid (live_items s uid) \<and> list_all (line_ok s) (live_items s uid) \<longrightarrow>
          (\<exists>v w. ?R = (Inr v, w))"
  proof
    assume h: "findIndex (\<lambda>item. productId item = pid) (live_items s uid) = None
          \<and> qty \<le> stock pr \<and> 0 \<le> p_price pr
          \<and> lines_valid (live_items s uid) \<and> list_all (line_ok s) (live_items s uid)"
    then have qs: "qty \<le> stock pr" and p0: "0 \<le> p_price pr"
      and lv: "lines_valid (live_items s uid)" and lo: "list_all (line_ok s) (live_items s uid)"
      and w: "in_cart s uid pid + qty \<le> stock pr"
      by (simp_all add: in_cart_def)
    from lo have ot: "list_all (\<lambda>item. productId item = pid \<or> line_ok s item) (live_items s uid)"
      by (simp add: list_all_iff)
    from merged_ok[OF pr q w p0 lv ot]
    have mv: "lines_valid (merge_item pr pid qty (live_items s uid))"
      and mo: "list_all (line_ok s) (merge_item pr pid qty (live_items s uid))" by auto
    from mv have "list_all (\<lambda>item. 0 \<le> totalPrice item) (merge_item pr pid qty (live_items s uid))"
      by (auto simp: lines_valid_def list_all_iff)
    from sum_totalPrice_nonneg[OF this] mv have cv: "cart_validate (snd (Cart_findOne_live s uid, ?c))"
      by (simp add: cart_validate_def lines_valid_def)
    from mo have l: "list_all (line_ok s) (items (snd (Cart_findOne_live s uid, ?c)))" by simp
    from cart_save_succeeds[OF cv l] show "\<exists>v w. ?R = (Inr v, w)"
      using q by (auto simp: addItemToCart_owner addItemToCart_body_save[OF pr qs] split: option.splits)
  qed
  from a a' b c show ?thesis by (intro conjI)
qed

theorem addItem_stock_outcomes_witness:
  "addItemToCart shop1 (Some 10) (Some 1) (Some 10) (Some 10) =
     (Inl (BadRequestError ''Insufficient stock for product''), shop1)
   \<and> in_cart shop1 10 1 = 3
   \<and> (\<exists>e. addItemToCart shop1 (Some 10) (Some 1) (Some 3) (Some 10) = (Inl e, shop1))
   \<and> findIndex (\<lambda>item. productId item = 2) (live_items shop1 10) = None
   \<and> (\<exists>v w. addItemToCart shop1 (Some 10) (Some 2) (Some 1) (Some 10) = (Inr v, w))"
proof -
  let ?p1 = "\<lparr>p_price = 100, stock = 5, isActive = True, p_isDeleted = False, seller = 7\<rparr>"
  let ?p2 = "\<lparr>p_price = 30, stock = 4, isActive = True, p_isDeleted = False, seller = 7\<rparr>"
  have pr1: "Product_findOne_available shop1 1 = Some ?p1" by code_simp
  have pr2: "Product_findOne_available shop1 2 = Some ?p2" by code_simp
  have q: "in_cart shop1 10 1 = 3" by code_simp
  have f: "findIndex (\<lambda>item. productId item = 2) (live_items shop1 10) = None" by code_simp
  have lv: "lines_valid (live_items shop1 10)" by code_simp
  have lo: "list_all (line_ok shop1) (live_items shop1 10)" by code_simp
  have w1: "addItemToCart shop1 (Some 10) (Some 1) (Some 10) (Some 10) =
     (Inl (BadRequestError ''Insufficient stock for product''), shop1)"
    using addItem_stock_outcomes[OF pr1, of 10 10] by simp
  have w2: "\<exists>e. addItemToCart shop1 (Some 10) (Some 1) (Some 3) (Some 10) = (Inl e, shop1)"
    using addItem_stock_outcomes[OF pr1, of 3 10] q by simp
  have w3: "\<exists>v w. addItemToCart shop1 (Some 10) (Some 2) (Some 1) (Some 10) = (Inr v, w)"
    using addItem_stock_outcomes[OF pr2, of 1 10] f lv lo by simp
  from w1 q w2 f w3 show ?thesis by (intro conjI)
qed

text \<open>
  C4. Adding the same product twice merges into one line: when two calls of
  \<^verbatim>\<open>addItemToCart\<close> for the same user and product succeed (the catalog may change in
  between), the user's cart holds exactly one line for the product, its quantity is the
  quantity the cart held before (0 when the product was not in the cart) plus the two
  requested quantities, and its price is the catalog's price at the second call. No
  operation of the cart service leaves a cart with two lines for one product id.
\<close>

theorem adding_twice_merges_into_one_line:
  "(addItemToCart s (Some uid) (Some pid) (Some q1) (Some uid) = (Inr v1, s1)
    \<and> addItemToCart (s1\<lparr>Product_coll := pc\<rparr>) (Some uid) (Some pid) (Some q2) (Some uid) = (Inr v2, s2)
    \<longrightarrow> (\<exists>pr. pc pid = Some pr
          \<and> filter (\<lambda>item. productId item = pid) (live_items s2 uid) =
              [\<lparr>productId = pid, price = p_price pr, quantity = in_cart s uid pid + q1 + q2,
                totalPrice = p_price pr * (in_cart s uid pid + q1 + q2)\<rparr>]
          \<and> distinct (map productId (live_items s2 uid))))
   \<and> (no_duplicate_lines s \<longrightarrow>
        no_duplicate_lines (snd (addItemToCart s u p q a))
        \<and> no_duplicate_lines (snd (updateCartItemQuantity s u p q a))
        \<and> no_duplicate_lines (snd (removeItemFromCart s u p a))
        \<and> no_duplicate_lines (snd (clearCart s u a)))"
proof -
  have 1: "\<exists>pr. pc pid = Some pr
          \<and> filter (\<lambda>item. productId item = pid) (live_items s2 uid) =
              [\<lparr>productId = pid, price = p_price pr, quantity = in_cart s uid pid + q1 + q2,
                totalPrice = p_price pr * (in_cart s uid pid + q1 + q2)\<rparr>]
          \<and> distinct (map productId (live_items s2 uid))"
    if a1: "addItemToCart s (Some uid) (Some pid) (Some q1) (Some uid) = (Inr v1, s1)"
      and a2: "addItemToCart (s1\<lparr>Product_coll := pc\<rparr>) (Some uid) (Some pid) (Some q2) (Some uid) = (Inr v2, s2)"
  proof -
    from addItemToCart_Inr[OF a1] obtain c1 where
      b1: "addItemToCart_body s uid pid q1 = (Inr c1, s1)" by auto
    from addItemToCart_Inr[OF a2] obtain c2 where
      b2: "addItemToCart_body (s1\<lparr>Product_coll := pc\<rparr>) uid pid q2 = (Inr c2, s2)" by auto
    from add_merges[OF b1] have q: "in_cart s1 uid pid = in_cart s uid pid + q1" by auto
    from add_merges[OF b2] q show ?thesis by auto
  qed
  have 2: "no_duplicate_lines (snd (addItemToCart s u p q a))
        \<and> no_duplicate_lines (snd (updateCartItemQuantity s u p q a))
        \<and> no_duplicate_lines (snd (removeItemFromCart s u p a))
        \<and> no_duplicate_lines (snd (clearCart s u a))" if inv: "no_duplicate_lines s"
    using mutation_no_duplicates[OF _ inv, of _ u p q a] clearCart_no_duplicates[OF inv, of u a]
    by blast
  from 1 2 show ?thesis by blast
qed

theorem adding_twice_merges_into_one_line_witness:
  "fst (addItemToCart shop0 (Some 10) (Some 1) (Some 2) (Some 10)) =
     Inr (Some (0, \<lparr>userId = 10,
        items = [\<lparr>productId = Some (1, 100), price = 100, quantity = 2, totalPrice = 200\<rparr>],
        totalAmount = 200, isDeleted = False\<rparr>))
   \<and> fst (addItemToCart ((snd (addItemToCart shop0 (Some 10) (Some 1) (Some 2) (Some 10)))
            \<lparr>Product_coll := catalog2\<rparr>) (Some 10) (Some 1) (Some 1) (Some 10)) =
     Inr (Some (0, \<lparr>userId = 10,
        items = [\<lparr>productId = Some (1, 120), price = 120, quantity = 3, totalPrice = 360\<rparr>],
        totalAmount = 360, isDeleted = False\<rparr>))
   \<and> filter (\<lambda>item. productId item = 1)
        (live_items (snd (addItemToCart ((snd (addItemToCart shop0 (Some 10) (Some 1) (Some 2) (Some 10)))
            \<lparr>Product_coll := catalog2\<rparr>) (Some 10) (Some 1) (Some 1) (Some 10))) 10) =
       [\<lparr>productId = 1, price = 120, quantity = 3, totalPrice = 360\<rparr>]
   \<and> no_duplicate_lines shop2
   \<and> no_duplicate_lines (snd (removeItemFromCart shop2 (Some 10) (Some 2) (Some 10)))"
proof -
  let ?r1 = "addItemToCart shop0 (Some 10) (Some 1) (Some 2) (Some 10)"
  let ?r2 = "addItemToCart ((snd ?r1)\<lparr>Product_coll := catalog2\<rparr>) (Some 10) (Some 1) (Some 1) (Some 10)"
  let ?v1 = "Some (0, \<lparr>userId = 10,
        items = [\<lparr>productId = Some (1::nat, 100::int), price = 100, quantity = 2, totalPrice = 200\<rparr>],
        totalAmount = 200, isDeleted = False\<rparr>)"
  let ?v2 = "Some (0, \<lparr>userId = 10,
        items = [\<lparr>productId = Some (1::nat, 120::int), price = 120, quantity = 3, totalPrice = 360\<rparr>],
        totalAmount = 360, isDeleted = False\<rparr>)"
  have e1: "fst ?r1 = Inr ?v1" by code_simp
  have e2: "fst ?r2 = Inr ?v2" by code_simp
  have a1: "?r1 = (Inr ?v1, snd ?r1)" using e1 by (metis prod.collapse)
  have a2: "?r2 = (Inr ?v2, snd ?r2)" using e2 by (metis prod.collapse)
  have q0: "in_cart shop0 10 1 = 0" by code_simp
  have c: "catalog2 1 = Some \<lparr>p_price = 120, stock = 5, isActive = True, p_isDeleted = False,
                              seller = 7\<rparr>" by (simp add: catalog2_def)
  have inv: "no_duplicate_lines shop2" by code_simp
  note t = adding_twice_merges_into_one_line[of shop0 10 1 2 ?v1 "snd ?r1" catalog2 1 ?v2 "snd ?r2"]
  note t' = adding_twice_merges_into_one_line[of shop2 _ _ _ _ _ _ _ _ _ "Some 10" "Some 2" None "Some 10"]
  from t a1 a2 q0 c have "filter (\<lambda>item. productId item = 1) (live_items (snd ?r2) 10) =
       [\<lparr>productId = 1, price = 120, quantity = 3, totalPrice = 360\<rparr>]"
    by auto
  moreover from t' inv have "no_duplicate_lines (snd (removeItemFromCart shop2 (Some 10) (Some 2) (Some 10)))"
    by blast
  ultimately show ?thesis using e1 e2 inv by simp
qed

text \<open>
  C5. What \<^verbatim>\<open>createOrder\<close> does with its requested lines. The claim: every pair is
  validated, a quantity that is not a positive integer fails with \<open>BadRequestError\<close>, a
  product that is missing or soft-deleted fails with \<open>NotFoundError\<close>, and the total is the
  sum of the captured price times quantity. In the code the first pair decides every
  call: a malformed product id or a quantity that is not an integer of at least 1 fails
  with \<open>BadRequestError\<close>, a product that is not stored fails with \<open>NotFoundError\<close>, and a
  product that is stored, soft-deleted or not, fails with the \<open>BadRequestError\<close> of a
  product without seller, because \<^verbatim>\<open>Product.findById\<close> does not look at \<^verbatim>\<open>isDeleted\<close> and the
  read \<^verbatim>\<open>product.sellerId\<close> is undefined. The store is unchanged in every case, and no later
  pair is looked at.
\<close>

theorem createOrder_line_checks:
  "createOrder sendEmail s (Some uid) (req # rest) sh bi me =
     (Inl (case fst req of
             None \<Rightarrow> BadRequestError ''Invalid product ID''
           | Some pid \<Rightarrow>
               (case snd req of
                  None \<Rightarrow> BadRequestError ''Invalid quantity for product''
                | Some qty \<Rightarrow>
                    if qty < 1 then BadRequestError ''Invalid quantity for product''
                    else (case Product_coll s pid of
                            None \<Rightarrow> NotFoundError ''Product not found''
                          | Some pr \<Rightarrow> BadRequestError ''Product has no seller''))), s)"
  by (simp add: createOrder_def createOrder_body_def product_sellerId_def abortTransaction_def
      split: option.splits)

theorem createOrder_line_checks_witness:
  "Product_coll shop0 3 =
     Some \<lparr>p_price = 50, stock = 9, isActive = True, p_isDeleted = True, seller = 8\<rparr>
   \<and> createOrder smtp_down shop0 (Some 10) [(Some 3, Some 2)] (Some full_address) (Some full_address)
        (Some ''cod'') = (Inl (BadRequestError ''Product has no seller''), shop0)
   \<and> createOrder smtp_down shop0 (Some 10) [(Some 1, Some 2)] (Some full_address) (Some full_address)
        (Some ''cod'') = (Inl (BadRequestError ''Product has no seller''), shop0)
   \<and> createOrder smtp_down shop0 (Some 10) [(Some 1, Some 2), (Some 4, Some 1)] (Some full_address)
        (Some full_address) (Some ''cod'') = (Inl (BadRequestError ''Product has no seller''), shop0)
   \<and> createOrder smtp_down shop0 (Some 10) [(Some 4, Some 2)] (Some full_address) (Some full_address)
        (Some ''cod'') = (Inl (NotFoundError ''Product not found''), shop0)
   \<and> createOrder smtp_down shop0 (Some 10) [(Some 1, Some 0)] (Some full_address) (Some full_address)
        (Some ''cod'') = (Inl (BadRequestError ''Invalid quantity for product''), shop0)
   \<and> Order_coll shop0 = []"
proof -
  have p3: "Product_coll shop0 3 =
     Some \<lparr>p_price = 50, stock = 9, isActive = True, p_isDeleted = True, seller = 8\<rparr>" by code_simp
  have p1: "Product_coll shop0 1 =
     Some \<lparr>p_price = 100, stock = 5, isActive = True, p_isDeleted = False, seller = 7\<rparr>" by code_simp
  have p4: "Product_coll shop0 4 = None" by code_simp
  have o: "Order_coll shop0 = []" by code_simp
  note t = createOrder_line_checks[of smtp_down shop0 10 _ _ "Some full_address" "Some full_address"
      "Some ''cod''"]
  from t[of "(Some 3, Some 2)" "[]"] t[of "(Some 1, Some 2)" "[]"]
    t[of "(Some 1, Some 2)" "[(Some 4, Some 1)]"] t[of "(Some 4, Some 2)" "[]"]
    t[of "(Some 1, Some 0)" "[]"] p3 p1 p4 o
  show ?thesis by simp
qed

text \<open>
  C7. The claim: on a verified payment the order's payment status becomes completed and
  its status shipped; on a failed verification the payment status becomes failed and the
  status cancelled. For an order the gateway id finds, the first half holds; on a failed
  verification the code writes the status \<^verbatim>\<open>'failed'\<close>, which is not \<^verbatim>\<open>'cancelled'\<close> and not
  a member of the order schema's status enumeration.
\<close>

theorem verifyPayment_statuses:
  assumes f: "findIndex (\<lambda>d. razorpayOrderId d = Some rid) (Order_coll s) = Some i"
  shows "fst (verifyPayment sendEmail s True rid) = 200
     \<and> paymentStatus (Order_coll (snd (verifyPayment sendEmail s True rid)) ! i) = ''completed''
     \<and> status (Order_coll (snd (verifyPayment sendEmail s True rid)) ! i) = ''shipped''
     \<and> fst (verifyPayment sendEmail s False rid) = 400
     \<and> paymentStatus (Order_coll (snd (verifyPayment sendEmail s False rid)) ! i) = ''failed''
     \<and> status (Order_coll (snd (verifyPayment sendEmail s False rid)) ! i) = ''failed''
     \<and> status (Order_coll (snd (verifyPayment sendEmail s False rid)) ! i) \<notin> set order_statuses"
proof -
  from findIndex_Some[OF f] have i: "i < length (Order_coll s)"
    and r: "razorpayOrderId (Order_coll s ! i) = Some rid" by auto
  have step1: "updatePaymentStatus s rid st =
      (Some (i, (Order_coll s ! i)\<lparr>paymentStatus := st\<rparr>),
       s\<lparr>Order_coll := (Order_coll s)[i := (Order_coll s ! i)\<lparr>paymentStatus := st\<rparr>]\<rparr>)" for st
    unfolding updatePaymentStatus_def by (rule findOneAndUpdate_found[OF f])
  have f2: "findIndex (\<lambda>d. razorpayOrderId d = Some rid)
              (Order_coll (s\<lparr>Order_coll := (Order_coll s)[i := (Order_coll s ! i)\<lparr>paymentStatus := st\<rparr>]\<rparr>)) = Some i" for st
    using f r by (simp add: findIndex_update)
  have t: "fst (verifyPayment sendEmail s True rid) = 200
     \<and> paymentStatus (Order_coll (snd (verifyPayment sendEmail s True rid)) ! i) = ''completed''
     \<and> status (Order_coll (snd (verifyPayment sendEmail s True rid)) ! i) = ''shipped''"
    using i by (simp add: verifyPayment_def step1 findOneAndUpdate_found[OF f2] Let_def
        split: option.splits)
  have e: "fst (verifyPayment sendEmail s False rid) = 400
     \<and> paymentStatus (Order_coll (snd (verifyPayment sendEmail s False rid)) ! i) = ''failed''
     \<and> status (Order_coll (snd (verifyPayment sendEmail s False rid)) ! i) = ''failed''"
    using i by (simp add: verifyPayment_def step1 findOneAndUpdate_found[OF f2] Let_def)
  have "''failed'' \<notin> set order_statuses" by (simp add: order_statuses_def)
  with t e show ?thesis by simp
qed

theorem verifyPayment_statuses_witness:
  "findIndex (\<lambda>d. razorpayOrderId d = Some ''order_A1'') (Order_coll shop4) = Some 0
   \<and> fst (verifyPayment smtp_down shop4 False ''order_A1'') = 400
   \<and> status (Order_coll (snd (verifyPayment smtp_down shop4 False ''order_A1'')) ! 0) = ''failed''
   \<and> status (Order_coll (snd (verifyPayment smtp_down shop4 False ''order_A1'')) ! 0) \<notin> set order_statuses
   \<and> status (Order_coll (snd (verifyPayment smtp_down shop4 False ''order_A1'')) ! 0) \<noteq> ''cancelled''
   \<and> fst (verifyPayment smtp_down shop4 True ''order_A1'') = 200
   \<and> paymentStatus (Order_coll (snd (verifyPayment smtp_down shop4 True ''order_A1'')) ! 0) = ''completed''
   \<and> status (Order_coll (snd (verifyPayment smtp_down shop4 True ''order_A1'')) ! 0) = ''shipped''"
proof -
  have f: "findIndex (\<lambda>d. razorpayOrderId d = Some ''order_A1'') (Order_coll shop4) = Some 0"
    by code_simp
  from verifyPayment_statuses[OF f, of smtp_down] f show ?thesis
    by (simp add: order_statuses_def)
qed

text \<open>
  C8. When \<^verbatim>\<open>addItemToCart\<close> fails, the store is the one the call started from: no cart
  is added or changed. This holds of the operation (the \<^verbatim>\<open>catch\<close> block aborts the
  transaction) and already of its \<^verbatim>\<open>try\<close> block, which writes nothing before the save
  succeeds. In particular a requested quantity above the product's stock fails with the
  insufficient-stock \<open>BadRequestError\<close> and leaves the store unchanged.
\<close>

theorem addItem_failure_leaves_store_unchanged:
  "(fst (addItemToCart s u p q a) = Inl e \<longrightarrow> snd (addItemToCart s u p q a) = s)
   \<and> (fst (addItemToCart_body s uid pid qty) = Inl e \<longrightarrow> snd (addItemToCart_body s uid pid qty) = s)
   \<and> (Product_findOne_available s pid = Some pr \<and> 0 < qty \<and> stock pr < qty \<longrightarrow>
        addItemToCart s (Some uid) (Some pid) (Some qty) (Some uid) =
          (Inl (BadRequestError ''Insufficient stock for product''), s))"
proof (intro conjI impI)
  assume "fst (addItemToCart s u p q a) = Inl e"
  then show "snd (addItemToCart s u p q a) = s"
    by (auto simp: addItemToCart_def abortTransaction_def
        split: option.splits if_splits prod.splits sum.splits)
next
  assume "fst (addItemToCart_body s uid pid qty) = Inl e"
  then show "snd (addItemToCart_body s uid pid qty) = s"
    using addItemToCart_body_Inl[of s uid pid qty e "snd (addItemToCart_body s uid pid qty)"]
    by (metis prod.collapse)
next
  assume "Product_findOne_available s pid = Some pr \<and> 0 < qty \<and> stock pr < qty"
  then show "addItemToCart s (Some uid) (Some pid) (Some qty) (Some uid) =
          (Inl (BadRequestError ''Insufficient stock for product''), s)"
    by (simp add: addItemToCart_def addItemToCart_body_def rethrow_def abortTransaction_def)
qed

theorem addItem_failure_leaves_store_unchanged_witness:
  "fst (addItemToCart shop1 (Some 10) (Some 1) (Some 10) (Some 10)) =
     Inl (BadRequestError ''Insufficient stock for product'')
   \<and> snd (addItemToCart shop1 (Some 10) (Some 1) (Some 10) (Some 10)) = shop1
   \<and> fst (addItemToCart shop1 (Some 10) (Some 1) (Some 3) (Some 10)) =
     Inl (BadRequestError ''Failed to add item to cart'')
   \<and> snd (addItemToCart shop1 (Some 10) (Some 1) (Some 3) (Some 10)) = shop1
   \<and> Cart_coll shop1 = [\<lparr>userId = 10,
        items = [\<lparr>productId = 1, price = 100, quantity = 3, totalPrice = 300\<rparr>],
        totalAmount = 300, isDeleted = False\<rparr>]"
proof -
  have e1: "fst (addItemToCart shop1 (Some 10) (Some 1) (Some 10) (Some 10)) =
     Inl (BadRequestError ''Insufficient stock for product'')" by code_simp
  have e2: "fst (addItemToCart shop1 (Some 10) (Some 1) (Some 3) (Some 10)) =
     Inl (BadRequestError ''Failed to add item to cart'')" by code_simp
  have c: "Cart_coll shop1 = [\<lparr>userId = 10,
        items = [\<lparr>productId = 1, price = 100, quantity = 3, totalPrice = 300\<rparr>],
        totalAmount = 300, isDeleted = False\<rparr>]" by code_simp
  from e1 e2 c
    addItem_failure_leaves_store_unchanged[of shop1 "Some 10" "Some 1" "Some 10" "Some 10"
      "BadRequestError ''Insufficient stock for product''"]
    addItem_failure_leaves_store_unchanged[of shop1 "Some 10" "Some 1" "Some 3" "Some 10"
      "BadRequestError ''Failed to add item to cart''"]
  show ?thesis by simp
qed



text \<open>
  C10. The claim: with no live cart, \<^verbatim>\<open>getUserCart\<close> returns an empty cart, and removing,
  updating and clearing fail with \<open>NotFoundError\<close>. For \<^verbatim>\<open>updateCartItemQuantity\<close> this is
  not so: it reads the product and compares its stock first, so a quantity above the
  stock fails with the insufficient-stock \<open>BadRequestError\<close> although the user has no cart.
\<close>

theorem updateQuantity_without_cart_counterexample:
  "Cart_findOne_live shop0 10 = None
   \<and> fst (updateCartItemQuantity shop0 (Some 10) (Some 1) (Some 9) (Some 10)) =
       Inl (BadRequestError ''Insufficient stock for product'')"
  by code_simp

text \<open>
  C10, amended. For the owner of a user id with no live cart (never created, or cleared):
  \<^verbatim>\<open>getUserCart\<close> succeeds with the empty cart; \<^verbatim>\<open>removeItemFromCart\<close> and \<^verbatim>\<open>clearCart\<close> fail
  with \<open>NotFoundError\<close> and leave the store unchanged; \<^verbatim>\<open>updateCartItemQuantity\<close> fails
  with \<open>NotFoundError\<close> (product or cart not found) unless the requested quantity exceeds
  the stock of an available product, where it fails with the insufficient-stock
  \<open>BadRequestError\<close>.
\<close>

theorem no_live_cart_behaviour:
  assumes "Cart_findOne_live s uid = None"
  shows "getUserCart s (Some uid) (Some uid) =
           Inr \<lparr>cv_id = None, cv_userId = uid, cv_items = [], cv_totalAmount = 0, cv_isDeleted = None\<rparr>
     \<and> removeItemFromCart s (Some uid) (Some pid) (Some uid) =
           (Inl (NotFoundError ''Cart not found''), s)
     \<and> clearCart s (Some uid) (Some uid) = (Inl (NotFoundError ''Cart not found''), s)
     \<and> (0 < qty \<longrightarrow>
          updateCartItemQuantity s (Some uid) (Some pid) (Some qty) (Some uid) =
           (case Product_findOne_available s pid of
              None \<Rightarrow> (Inl (NotFoundError ''Product not found or unavailable''), s)
            | Some pr \<Rightarrow>
                if stock pr < qty then (Inl (BadRequestError ''Insufficient stock for product''), s)
                else (Inl (NotFoundError ''Cart not found''), s)))"
  using assms
  by (auto simp: getUserCart_def removeItemFromCart_def removeItemFromCart_body_def
      clearCart_def clearCart_body_def updateCartItemQuantity_def updateCartItemQuantity_body_def
      rethrow_def abortTransaction_def split: option.splits)

theorem no_live_cart_behaviour_witness:
  "fst (clearCart shop1 (Some 10) (Some 10)) = Inr ''Cart cleared successfully''
   \<and> Cart_findOne_live (snd (clearCart shop1 (Some 10) (Some 10))) 10 = None
   \<and> getUserCart (snd (clearCart shop1 (Some 10) (Some 10))) (Some 10) (Some 10) =
        Inr \<lparr>cv_id = None, cv_userId = 10, cv_items = [], cv_totalAmount = 0, cv_isDeleted = None\<rparr>
   \<and> fst (removeItemFromCart (snd (clearCart shop1 (Some 10) (Some 10))) (Some 10) (Some 1) (Some 10)) =
        Inl (NotFoundError ''Cart not found'')
   \<and> fst (clearCart (snd (clearCart shop1 (Some 10) (Some 10))) (Some 10) (Some 10)) =
        Inl (NotFoundError ''Cart not found'')
   \<and> fst (updateCartItemQuantity (snd (clearCart shop1 (Some 10) (Some 10))) (Some 10) (Some 1) (Some 2) (Some 10)) =
        Inl (NotFoundError ''Cart not found'')"
proof -
  let ?s = "snd (clearCart shop1 (Some 10) (Some 10))"
  have c: "fst (clearCart shop1 (Some 10) (Some 10)) = Inr ''Cart cleared successfully''"
    by code_simp
  have l: "Cart_findOne_live ?s 10 = None" by code_simp
  have p: "Product_findOne_available ?s 1 =
             Some \<lparr>p_price = 100, stock = 5, isActive = True, p_isDeleted = False, seller = 7\<rparr>"
    by code_simp
  from no_live_cart_behaviour[OF l, of 1 2] c l p show ?thesis by simp
qed

end
